theory Spec2Isabelle
  imports Complex_Main "HOL-Library.Sublist" "HOL-Library.Log_Nat"
begin

section \<open>Crisis detection and escalation engine\<close>

text \<open>
  A shallow embedding of \<^verbatim>\<open>backend/guardrailes/crisis_detector.py\<close>.

  Conventions of the embedding.
  \<^item> A Python \<^verbatim>\<open>str\<close> is a \<open>string\<close> holding its UTF-8 encoding: ASCII text is written
    as a literal, an Arabic letter is the two bytes of its encoding. The source never
    takes the length of a string or indexes one; it only tests \<^verbatim>\<open>k in text\<close>,
    and a substring test on code points and on the UTF-8 bytes agree.
  \<^item> A Python \<^verbatim>\<open>float\<close> is the real number the double denotes. A product or a sum
    of floats is the exact result rounded to the nearest double, ties to the even
    mantissa, and a decimal literal that enters arithmetic is rounded the same way
    (\<open>py_float\<close>, \<open>float_mul\<close>, \<open>float_add\<close> below). Comparisons are exact. The
    thresholds of the classifier and of the session tracker (3.0, 2.5, 2.0, 1.0, 0.5)
    are doubles, and the risks the tracker returns (0.5, 0.3, 0.0) enter no arithmetic:
    they are written as the source writes them.
  \<^item> \<^verbatim>\<open>str.lower\<close>, the \<^verbatim>\<open>re\<close> module and the order in which a \<^verbatim>\<open>set\<close> of
    strings is iterated belong to the Python runtime, not to the repository: they are
    parameters of the model.
\<close>

subsection \<open>Enumerations\<close>

datatype CrisisType =
  SUICIDE | SELF_HARM | VIOLENCE | SEVERE_DEPRESSION | PSYCHOSIS | SUBSTANCE_ABUSE | EATING_DISORDER

fun type_value :: "CrisisType \<Rightarrow> string" where
  "type_value SUICIDE = ''suicide''"
| "type_value SELF_HARM = ''self_harm''"
| "type_value VIOLENCE = ''violence''"
| "type_value SEVERE_DEPRESSION = ''severe_depression''"
| "type_value PSYCHOSIS = ''psychosis''"
| "type_value SUBSTANCE_ABUSE = ''substance_abuse''"
| "type_value EATING_DISORDER = ''eating_disorder''"

datatype CrisisLevel = LOW | MEDIUM | HIGH | CRITICAL

fun level_value :: "CrisisLevel \<Rightarrow> string" where
  "level_value LOW = ''low''"
| "level_value MEDIUM = ''medium''"
| "level_value HIGH = ''high''"
| "level_value CRITICAL = ''critical''"

subsection \<open>Runtime services and errors\<close>

text \<open>
  The exceptions the code can raise: \<^verbatim>\<open>re.error\<close> from the regex module on a
  pattern it cannot compile, and \<^verbatim>\<open>KeyError\<close> from a dictionary subscript.
\<close>

datatype error = ReError | KeyError

text \<open>
  \<^verbatim>\<open>re.findall(pattern, text, re.IGNORECASE)\<close> first compiles the pattern and then
  scans the text. The engine is the compilation step: \<open>None\<close> when the pattern is
  rejected (\<^verbatim>\<open>re.error\<close>), otherwise the function from a text to the list of its
  non-overlapping matches.
\<close>

type_synonym re_match = "string list"

type_synonym re_engine = "string \<Rightarrow> (string \<Rightarrow> re_match list) option"

definition re_findall :: "re_engine \<Rightarrow> string \<Rightarrow> string \<Rightarrow> error + re_match list" where
  "re_findall engine pattern text =
     (case engine pattern of None \<Rightarrow> Inl ReError | Some scan \<Rightarrow> Inr (scan text))"

text \<open>Python's \<^verbatim>\<open>k in text\<close> on strings: \<open>k\<close> occurs in \<open>text\<close> as a contiguous run.\<close>

fun str_contains :: "string \<Rightarrow> string \<Rightarrow> bool" where
  "str_contains k [] = (k = [])"
| "str_contains k (c # cs) = (prefix k (c # cs) \<or> str_contains k cs)"

subsection \<open>Double-precision arithmetic\<close>

text \<open>
  For a positive \<open>x\<close>, the exponent \<open>e\<close> with \<open>2\<^sup>e \<le> x < 2\<^sup>e\<^sup>+\<^sup>1\<close>, computed on
  integers: from the bit length of the integer part when \<open>x \<ge> 1\<close>, and from that of the
  reciprocal otherwise.
\<close>

definition exponent_of :: "real \<Rightarrow> int" where
  "exponent_of x =
     (if 1 \<le> x then int (floorlog 2 (nat \<lfloor>x\<rfloor>)) - 1
      else - int (floorlog 2 (nat (\<lceil>1 / x\<rceil> - 1))))"

text \<open>Rounding to the nearest integer, a tie going to the even one.\<close>

definition round_half_even :: "real \<Rightarrow> int" where
  "round_half_even y =
     (let f = \<lfloor>y\<rfloor>; d = y - of_int f
      in if d < 1 / 2 then f else if 1 / 2 < d then f + 1 else if even f then f else f + 1)"

text \<open>
  The double nearest to a real number: a mantissa of 53 bits, so the spacing of the
  doubles around \<open>x\<close> is \<open>2\<close> to the power \<open>exponent_of \<bar>x\<bar> - 52\<close>. Overflow and
  subnormal numbers are left out: the scores of the engine are sums and products of a
  few numbers between 0.3 and the number of matches in a text.
\<close>

definition py_float :: "real \<Rightarrow> real" where
  "py_float x =
     (if x = 0 then 0
      else (let quantum = 2 powi (exponent_of \<bar>x\<bar> - 52)
            in of_int (round_half_even (x / quantum)) * quantum))"

definition float_add :: "real \<Rightarrow> real \<Rightarrow> real" where
  "float_add a b = py_float (a + b)"

definition float_mul :: "real \<Rightarrow> real \<Rightarrow> real" where
  "float_mul a b = py_float (a * b)"

text \<open>
  The order in which Python iterates a \<^verbatim>\<open>set\<close> of strings follows the hashes of the
  strings, which the interpreter seeds anew for each process. A ranking of the strings
  stands for it: the members, each once, by increasing rank. Every order a process can
  show is the order of some ranking, and within a process the ranking is fixed.
\<close>

definition iterate_set :: "(string \<Rightarrow> nat) \<Rightarrow> string list \<Rightarrow> string list" where
  "iterate_set rank inserted = sort_key rank (remdups inserted)"

subsection \<open>Results of the channels and of the fusion\<close>

text \<open>
  The dictionary each matcher returns: \<^verbatim>\<open>{"types": [...], "scores": {...}, "..._found": [...]}\<close>.
  The third key is \<^verbatim>\<open>keywords_found\<close>, \<^verbatim>\<open>patterns_found\<close> or
  \<^verbatim>\<open>expressions_found\<close>; its element type is the parameter \<open>'f\<close>.
\<close>

record 'f channel_result =
  ch_types :: "string list"
  ch_scores :: "string \<rightharpoonup> real"
  ch_found :: "'f list"

text \<open>The dictionary \<^verbatim>\<open>_calculate_combined_score\<close> returns.\<close>

record combined_score =
  types :: "string list"
  scores :: "(string \<times> real) list"
  total_score :: real
  keyword_details :: "string channel_result"
  pattern_details :: "re_match channel_result"
  dialect_details :: "string channel_result"

subsection \<open>The engine and its static tables\<close>

text \<open>
  The four groups of the dictionary \<^verbatim>\<open>_build_emergency_resources\<close> returns; the
  code reads them by the constant keys \<^verbatim>\<open>"emergency"\<close>, \<^verbatim>\<open>"hospitals"\<close>,
  \<^verbatim>\<open>"mental_health"\<close> and \<^verbatim>\<open>"support"\<close>. Each group is a dictionary from a
  name to a contact.
\<close>

record emergency_directory =
  emergency :: "string \<rightharpoonup> string"
  hospitals :: "string \<rightharpoonup> string"
  mental_health :: "string \<rightharpoonup> string"
  support :: "string \<rightharpoonup> string"

text \<open>One entry of a session's history, with the keys \<^verbatim>\<open>timestamp\<close>, \<^verbatim>\<open>score\<close>
  and \<^verbatim>\<open>types\<close>; \<^verbatim>\<open>datetime.now()\<close> is a number read from a clock.\<close>

record session_record =
  sr_timestamp :: nat
  sr_score :: real
  sr_types :: "string list"

text \<open>
  The object \<^verbatim>\<open>CrisisDetectionSystem\<close>. The tables that are iterated with
  \<^verbatim>\<open>.items()\<close> are association lists in the order of the dictionary literal; a
  pattern entry is (pattern source, (type, weight)), kept as the string the source
  writes.
\<close>

record CrisisDetectionSystem =
  crisis_keywords :: "(CrisisType \<times> string list) list"
  crisis_patterns :: "(string \<times> CrisisType \<times> real) list"
  omani_crisis_expressions :: "(CrisisType \<times> string list) list"
  emergency_resources :: emergency_directory
  session_history :: "string \<rightharpoonup> session_record list"

definition build_crisis_keywords :: "(CrisisType \<times> string list) list" where
  "build_crisis_keywords =
     [
      (SUICIDE,
        [[CHR 0xD8, CHR 0xA3, CHR 0xD8, CHR 0xB1, CHR 0xD9, CHR 0x8A, CHR 0xD8, CHR 0xAF,
          CHR 0x20, CHR 0xD8, CHR 0xA3, CHR 0xD9, CHR 0x86, CHR 0x20, CHR 0xD8, CHR 0xA3,
          CHR 0xD9, CHR 0x85, CHR 0xD9, CHR 0x88, CHR 0xD8, CHR 0xAA],
         [CHR 0xD8, CHR 0xA8, CHR 0xD8, CHR 0xAF, CHR 0xD9, CHR 0x8A, CHR 0x20, CHR 0xD8,
          CHR 0xA3, CHR 0xD9, CHR 0x85, CHR 0xD9, CHR 0x88, CHR 0xD8, CHR 0xAA],
         [CHR 0xD9, CHR 0x86, CHR 0xD9, CHR 0x81, CHR 0xD8, CHR 0xB3, CHR 0xD9, CHR 0x8A,
          CHR 0x20, CHR 0xD8, CHR 0xA3, CHR 0xD9, CHR 0x85, CHR 0xD9, CHR 0x88, CHR 0xD8,
          CHR 0xAA],
         [CHR 0xD8, CHR 0xA3, CHR 0xD9, CHR 0x82, CHR 0xD8, CHR 0xAA, CHR 0xD9, CHR 0x84,
          CHR 0x20, CHR 0xD9, CHR 0x86, CHR 0xD9, CHR 0x81, CHR 0xD8, CHR 0xB3, CHR 0xD9,
          CHR 0x8A],
         [CHR 0xD8, CHR 0xB3, CHR 0xD8, CHR 0xA3, CHR 0xD9, CHR 0x82, CHR 0xD8, CHR 0xAA,
          CHR 0xD9, CHR 0x84, CHR 0x20, CHR 0xD9, CHR 0x86, CHR 0xD9, CHR 0x81, CHR 0xD8,
          CHR 0xB3, CHR 0xD9, CHR 0x8A],
         [CHR 0xD8, CHR 0xA3, CHR 0xD9, CHR 0x86, CHR 0xD8, CHR 0xAA, CHR 0xD8, CHR 0xAD,
          CHR 0xD8, CHR 0xB1],
         [CHR 0xD8, CHR 0xA7, CHR 0xD9, CHR 0x86, CHR 0xD8, CHR 0xAA, CHR 0xD8, CHR 0xAD,
          CHR 0xD8, CHR 0xA7, CHR 0xD8, CHR 0xB1],
         [CHR 0xD8, CHR 0xA3, CHR 0xD9, CHR 0x86, CHR 0xD9, CHR 0x87, CHR 0xD9, CHR 0x8A,
          CHR 0x20, CHR 0xD8, CHR 0xAD, CHR 0xD9, CHR 0x8A, CHR 0xD8, CHR 0xA7, CHR 0xD8,
          CHR 0xAA, CHR 0xD9, CHR 0x8A],
         [CHR 0xD9, CHR 0x84, CHR 0xD8, CHR 0xA7, CHR 0x20, CHR 0xD8, CHR 0xA3, CHR 0xD8,
          CHR 0xB1, CHR 0xD9, CHR 0x8A, CHR 0xD8, CHR 0xAF, CHR 0x20, CHR 0xD8, CHR 0xA3,
          CHR 0xD9, CHR 0x86, CHR 0x20, CHR 0xD8, CHR 0xA3, CHR 0xD8, CHR 0xB9, CHR 0xD9,
          CHR 0x8A, CHR 0xD8, CHR 0xB4],
         [CHR 0xD9, CHR 0x85, CHR 0xD9, CHR 0x84, CHR 0xD9, CHR 0x84, CHR 0xD8, CHR 0xAA,
          CHR 0x20, CHR 0xD9, CHR 0x85, CHR 0xD9, CHR 0x86, CHR 0x20, CHR 0xD8, CHR 0xA7,
          CHR 0xD9, CHR 0x84, CHR 0xD8, CHR 0xAD, CHR 0xD9, CHR 0x8A, CHR 0xD8, CHR 0xA7,
          CHR 0xD8, CHR 0xA9],
         [CHR 0xD8, CHR 0xA7, CHR 0xD9, CHR 0x84, CHR 0xD9, CHR 0x85, CHR 0xD9, CHR 0x88,
          CHR 0xD8, CHR 0xAA, CHR 0x20, CHR 0xD8, CHR 0xA3, CHR 0xD8, CHR 0xAD, CHR 0xD8,
          CHR 0xB3, CHR 0xD9, CHR 0x86],
         [CHR 0xD8, CHR 0xA3, CHR 0xD8, CHR 0xB3, CHR 0xD8, CHR 0xAA, CHR 0xD8, CHR 0xAD,
          CHR 0xD9, CHR 0x82, CHR 0x20, CHR 0xD8, CHR 0xA7, CHR 0xD9, CHR 0x84, CHR 0xD9,
          CHR 0x85, CHR 0xD9, CHR 0x88, CHR 0xD8, CHR 0xAA],
         [CHR 0xD8, CHR 0xA7, CHR 0xD9, CHR 0x84, CHR 0xD8, CHR 0xB9, CHR 0xD8, CHR 0xA7,
          CHR 0xD9, CHR 0x84, CHR 0xD9, CHR 0x85, CHR 0x20, CHR 0xD8, CHR 0xA3, CHR 0xD8,
          CHR 0xAD, CHR 0xD8, CHR 0xB3, CHR 0xD9, CHR 0x86, CHR 0x20, CHR 0xD8, CHR 0xA8,
          CHR 0xD8, CHR 0xAF, CHR 0xD9, CHR 0x88, CHR 0xD9, CHR 0x86, CHR 0xD9, CHR 0x8A],
         [CHR 0xD8, CHR 0xA3, CHR 0xD8, CHR 0xB0, CHR 0xD9, CHR 0x87, CHR 0xD8, CHR 0xA8,
          CHR 0x20, CHR 0xD9, CHR 0x84, CHR 0xD9, CHR 0x84, CHR 0xD8, CHR 0xA3, CHR 0xD8,
          CHR 0xA8, CHR 0xD8, CHR 0xAF],
         [CHR 0xD9, CHR 0x84, CHR 0xD8, CHR 0xA7, CHR 0x20, CHR 0xD9, CHR 0x81, CHR 0xD8,
          CHR 0xA7, CHR 0xD8, CHR 0xA6, CHR 0xD8, CHR 0xAF, CHR 0xD8, CHR 0xA9, CHR 0x20,
          CHR 0xD9, CHR 0x85, CHR 0xD9, CHR 0x86, CHR 0x20, CHR 0xD9, CHR 0x88, CHR 0xD8,
          CHR 0xAC, CHR 0xD9, CHR 0x88, CHR 0xD8, CHR 0xAF, CHR 0xD9, CHR 0x8A],
         [CHR 0xD9, CHR 0x85, CHR 0xD8, CHR 0xAD, CHR 0xD8, CHR 0xAF, CHR 0x20, CHR 0xD9,
          CHR 0x8A, CHR 0xD8, CHR 0xAD, CHR 0xD8, CHR 0xAA, CHR 0xD8, CHR 0xA7, CHR 0xD8,
          CHR 0xAC, CHR 0xD9, CHR 0x86, CHR 0xD9, CHR 0x8A],
         [CHR 0xD8, CHR 0xB9, CHR 0xD8, CHR 0xA8, CHR 0xD8, CHR 0xA1, CHR 0x20, CHR 0xD8,
          CHR 0xB9, CHR 0xD9, CHR 0x84, CHR 0xD9, CHR 0x89, CHR 0x20, CHR 0xD8, CHR 0xA7,
          CHR 0xD9, CHR 0x84, CHR 0xD8, CHR 0xAC, CHR 0xD9, CHR 0x85, CHR 0xD9, CHR 0x8A,
          CHR 0xD8, CHR 0xB9],
         [CHR 0xD8, CHR 0xA3, CHR 0xD8, CHR 0xB1, CHR 0xD8, CHR 0xAA, CHR 0xD8, CHR 0xA7,
          CHR 0xD8, CHR 0xAD, CHR 0x20, CHR 0xD9, CHR 0x84, CHR 0xD9, CHR 0x88, CHR 0x20,
          CHR 0xD9, CHR 0x85, CHR 0xD8, CHR 0xAA],
         [CHR 0xD8, CHR 0xA3, CHR 0xD8, CHR 0xAA, CHR 0xD9, CHR 0x85, CHR 0xD9, CHR 0x86,
          CHR 0xD9, CHR 0x89, CHR 0x20, CHR 0xD8, CHR 0xA3, CHR 0xD9, CHR 0x86, CHR 0xD8,
          CHR 0xA7, CHR 0xD9, CHR 0x85, CHR 0x20, CHR 0xD9, CHR 0x88, CHR 0xD9, CHR 0x84,
          CHR 0xD8, CHR 0xA7, CHR 0x20, CHR 0xD8, CHR 0xA3, CHR 0xD8, CHR 0xB5, CHR 0xD8,
          CHR 0xAD, CHR 0xD9, CHR 0x89],
         [CHR 0xD8, CHR 0xAE, CHR 0xD9, CHR 0x84, CHR 0xD8, CHR 0xB5, CHR 0xD8, CHR 0xAA,
          CHR 0x20, CHR 0xD9, CHR 0x85, CHR 0xD9, CHR 0x86, CHR 0x20, CHR 0xD8, CHR 0xA7,
          CHR 0xD9, CHR 0x84, CHR 0xD8, CHR 0xAF, CHR 0xD9, CHR 0x86, CHR 0xD9, CHR 0x8A,
          CHR 0xD8, CHR 0xA7],
         [CHR 0xD9, CHR 0x86, CHR 0xD9, CHR 0x87, CHR 0xD8, CHR 0xA7, CHR 0xD9, CHR 0x8A,
          CHR 0xD8, CHR 0xA9, CHR 0x20, CHR 0xD8, CHR 0xA7, CHR 0xD9, CHR 0x84, CHR 0xD9,
          CHR 0x85, CHR 0xD8, CHR 0xB7, CHR 0xD8, CHR 0xA7, CHR 0xD9, CHR 0x81],
         [CHR 0xD8, CHR 0xA2, CHR 0xD8, CHR 0xAE, CHR 0xD8, CHR 0xB1, CHR 0x20, CHR 0xD8,
          CHR 0xAE, CHR 0xD9, CHR 0x8A, CHR 0xD8, CHR 0xA7, CHR 0xD8, CHR 0xB1],
         [CHR 0xD8, CHR 0xAD, CHR 0xD9, CHR 0x84, CHR 0x20, CHR 0xD9, CHR 0x86, CHR 0xD9,
          CHR 0x87, CHR 0xD8, CHR 0xA7, CHR 0xD8, CHR 0xA6, CHR 0xD9, CHR 0x8A],
         [CHR 0xD8, CHR 0xB1, CHR 0xD8, CHR 0xA7, CHR 0xD8, CHR 0xAD, CHR 0xD8, CHR 0xA9,
          CHR 0x20, CHR 0xD8, CHR 0xA3, CHR 0xD8, CHR 0xA8, CHR 0xD8, CHR 0xAF, CHR 0xD9,
          CHR 0x8A, CHR 0xD8, CHR 0xA9],
         [CHR 0xD8, CHR 0xA3, CHR 0xD8, CHR 0xAE, CHR 0xD8, CHR 0xB7, CHR 0xD8, CHR 0xB7,
          CHR 0x20, CHR 0xD9, CHR 0x84, CHR 0xD9, CHR 0x80],
         [CHR 0xD9, CHR 0x82, CHR 0xD8, CHR 0xB1, CHR 0xD8, CHR 0xB1, CHR 0xD8, CHR 0xAA,
          CHR 0x20, CHR 0xD8, CHR 0xA3, CHR 0xD9, CHR 0x86],
         [CHR 0xD9, CHR 0x84, CHR 0xD9, CHR 0x86, CHR 0x20, CHR 0xD8, CHR 0xA3, CHR 0xD9,
          CHR 0x83, CHR 0xD9, CHR 0x88, CHR 0xD9, CHR 0x86, CHR 0x20, CHR 0xD9, CHR 0x87,
          CHR 0xD9, CHR 0x86, CHR 0xD8, CHR 0xA7],
         [CHR 0xD9, CHR 0x88, CHR 0xD8, CHR 0xAF, CHR 0xD8, CHR 0xA7, CHR 0xD8, CHR 0xB9,
          CHR 0xD8, CHR 0xA7, CHR 0xD9, CHR 0x8B, CHR 0x20, CHR 0xD9, CHR 0x84, CHR 0xD9,
          CHR 0x84, CHR 0xD8, CHR 0xAC, CHR 0xD9, CHR 0x85, CHR 0xD9, CHR 0x8A, CHR 0xD8,
          CHR 0xB9],
         [CHR 0xD8, CHR 0xA2, CHR 0xD8, CHR 0xAE, CHR 0xD8, CHR 0xB1, CHR 0x20, CHR 0xD8,
          CHR 0xB1, CHR 0xD8, CHR 0xB3, CHR 0xD8, CHR 0xA7, CHR 0xD9, CHR 0x84, CHR 0xD8,
          CHR 0xA9],
         [CHR 0xD8, CHR 0xAA, CHR 0xD9, CHR 0x88, CHR 0xD8, CHR 0xAF, CHR 0xD9, CHR 0x8A,
          CHR 0xD8, CHR 0xB9],
         [CHR 0xD9, CHR 0x88, CHR 0xD8, CHR 0xB5, CHR 0xD9, CHR 0x8A, CHR 0xD8, CHR 0xA9],
         [CHR 0xD8, CHR 0xA7, CHR 0xD9, CHR 0x86, CHR 0xD8, CHR 0xAA, CHR 0xD9, CHR 0x87,
          CHR 0xD9, CHR 0x89, CHR 0x20, CHR 0xD9, CHR 0x83, CHR 0xD9, CHR 0x84, CHR 0x20,
          CHR 0xD8, CHR 0xB4, CHR 0xD9, CHR 0x8A, CHR 0xD8, CHR 0xA1]]),
      (SELF_HARM,
        [[CHR 0xD8, CHR 0xA3, CHR 0xD8, CHR 0xA4, CHR 0xD8, CHR 0xB0, CHR 0xD9, CHR 0x8A,
          CHR 0x20, CHR 0xD9, CHR 0x86, CHR 0xD9, CHR 0x81, CHR 0xD8, CHR 0xB3, CHR 0xD9,
          CHR 0x8A],
         [CHR 0xD8, CHR 0xA3, CHR 0xD8, CHR 0xAC, CHR 0xD8, CHR 0xB1, CHR 0xD8, CHR 0xAD,
          CHR 0x20, CHR 0xD9, CHR 0x86, CHR 0xD9, CHR 0x81, CHR 0xD8, CHR 0xB3, CHR 0xD9,
          CHR 0x8A],
         [CHR 0xD8, CHR 0xA3, CHR 0xD9, CHR 0x82, CHR 0xD8, CHR 0xB7, CHR 0xD8, CHR 0xB9,
          CHR 0x20, CHR 0xD9, CHR 0x86, CHR 0xD9, CHR 0x81, CHR 0xD8, CHR 0xB3, CHR 0xD9,
          CHR 0x8A],
         [CHR 0xD8, CHR 0xA3, CHR 0xD8, CHR 0xB6, CHR 0xD8, CHR 0xB1, CHR 0xD8, CHR 0xA8,
          CHR 0x20, CHR 0xD9, CHR 0x86, CHR 0xD9, CHR 0x81, CHR 0xD8, CHR 0xB3, CHR 0xD9,
          CHR 0x8A],
         [CHR 0xD8, CHR 0xA3, CHR 0xD8, CHR 0xAD, CHR 0xD8, CHR 0xB1, CHR 0xD9, CHR 0x82,
          CHR 0x20, CHR 0xD9, CHR 0x86, CHR 0xD9, CHR 0x81, CHR 0xD8, CHR 0xB3, CHR 0xD9,
          CHR 0x8A],
         [CHR 0xD8, CHR 0xA3, CHR 0xD8, CHR 0xB9, CHR 0xD8, CHR 0xB0, CHR 0xD8, CHR 0xA8,
          CHR 0x20, CHR 0xD9, CHR 0x86, CHR 0xD9, CHR 0x81, CHR 0xD8, CHR 0xB3, CHR 0xD9,
          CHR 0x8A],
         [CHR 0xD8, CHR 0xA3, CHR 0xD9, CHR 0x83, CHR 0xD8, CHR 0xB3, CHR 0xD8, CHR 0xB1],
         [CHR 0xD8, CHR 0xA3, CHR 0xD8, CHR 0xAE, CHR 0xD8, CHR 0xAF, CHR 0xD8, CHR 0xB4],
         [CHR 0xD8, CHR 0xB3, CHR 0xD9, CHR 0x83, CHR 0xD9, CHR 0x8A, CHR 0xD9, CHR 0x86],
         [CHR 0xD8, CHR 0xB4, CHR 0xD9, CHR 0x81, CHR 0xD8, CHR 0xB1, CHR 0xD8, CHR 0xA9],
         [CHR 0xD8, CHR 0xAD, CHR 0xD8, CHR 0xB1, CHR 0xD9, CHR 0x82],
         [CHR 0xD8, CHR 0xB6, CHR 0xD8, CHR 0xB1, CHR 0xD8, CHR 0xA8],
         [CHR 0xD8, CHR 0xB9, CHR 0xD8, CHR 0xB6],
         [CHR 0xD8, CHR 0xAE, CHR 0xD8, CHR 0xAF, CHR 0xD8, CHR 0xB4],
         [CHR 0xD8, CHR 0xA3, CHR 0xD8, CHR 0xB3, CHR 0xD8, CHR 0xAA, CHR 0xD8, CHR 0xAD,
          CHR 0xD9, CHR 0x82, CHR 0x20, CHR 0xD8, CHR 0xA7, CHR 0xD9, CHR 0x84, CHR 0xD8,
          CHR 0xA3, CHR 0xD9, CHR 0x84, CHR 0xD9, CHR 0x85],
         [CHR 0xD8, CHR 0xA3, CHR 0xD8, CHR 0xB9, CHR 0xD8, CHR 0xA7, CHR 0xD9, CHR 0x82,
          CHR 0xD8, CHR 0xA8, CHR 0x20, CHR 0xD9, CHR 0x86, CHR 0xD9, CHR 0x81, CHR 0xD8,
          CHR 0xB3, CHR 0xD9, CHR 0x8A],
         [CHR 0xD8, CHR 0xA3, CHR 0xD8, CHR 0xB3, CHR 0xD8, CHR 0xAA, CHR 0xD8, CHR 0xAD,
          CHR 0xD9, CHR 0x82, CHR 0x20, CHR 0xD8, CHR 0xA7, CHR 0xD9, CHR 0x84, CHR 0xD8,
          CHR 0xB9, CHR 0xD8, CHR 0xB0, CHR 0xD8, CHR 0xA7, CHR 0xD8, CHR 0xA8],
         [CHR 0xD8, CHR 0xA3, CHR 0xD9, CHR 0x84, CHR 0xD9, CHR 0x85, CHR 0x20, CHR 0xD8,
          CHR 0xAC, CHR 0xD8, CHR 0xB3, CHR 0xD8, CHR 0xAF, CHR 0xD9, CHR 0x8A],
         [CHR 0xD8, CHR 0xA3, CHR 0xD8, CHR 0xB4, CHR 0xD8, CHR 0xB9, CHR 0xD8, CHR 0xB1,
          CHR 0x20, CHR 0xD8, CHR 0xA8, CHR 0xD8, CHR 0xA7, CHR 0xD9, CHR 0x84, CHR 0xD8,
          CHR 0xA3, CHR 0xD9, CHR 0x84, CHR 0xD9, CHR 0x85],
         [CHR 0xD8, CHR 0xAF, CHR 0xD9, CHR 0x85],
         [CHR 0xD8, CHR 0xAC, CHR 0xD8, CHR 0xB1, CHR 0xD9, CHR 0x88, CHR 0xD8, CHR 0xAD],
         [CHR 0xD9, CHR 0x86, CHR 0xD8, CHR 0xAF, CHR 0xD9, CHR 0x88, CHR 0xD8, CHR 0xA8],
         [CHR 0xD8, CHR 0xA3, CHR 0xD8, CHR 0xB1, CHR 0xD9, CHR 0x8A, CHR 0xD8, CHR 0xAF,
          CHR 0x20, CHR 0xD8, CHR 0xA3, CHR 0xD9, CHR 0x86, CHR 0x20, CHR 0xD8, CHR 0xA3,
          CHR 0xD8, CHR 0xB4, CHR 0xD8, CHR 0xB9, CHR 0xD8, CHR 0xB1, CHR 0x20, CHR 0xD8,
          CHR 0xA8, CHR 0xD8, CHR 0xB4, CHR 0xD9, CHR 0x8A, CHR 0xD8, CHR 0xA1],
         [CHR 0xD8, CHR 0xA3, CHR 0xD9, CHR 0x84, CHR 0xD9, CHR 0x85, CHR 0x20, CHR 0xD8,
          CHR 0xAD, CHR 0xD9, CHR 0x82, CHR 0xD9, CHR 0x8A, CHR 0xD9, CHR 0x82, CHR 0xD9,
          CHR 0x8A],
         [CHR 0xD8, CHR 0xA3, CHR 0xD9, CHR 0x84, CHR 0xD9, CHR 0x85, CHR 0x20, CHR 0xD8,
          CHR 0xA3, CHR 0xD8, CHR 0xB3, CHR 0xD8, CHR 0xAA, CHR 0xD8, CHR 0xB7, CHR 0xD9,
          CHR 0x8A, CHR 0xD8, CHR 0xB9, CHR 0x20, CHR 0xD8, CHR 0xB1, CHR 0xD8, CHR 0xA4,
          CHR 0xD9, CHR 0x8A, CHR 0xD8, CHR 0xAA, CHR 0xD9, CHR 0x87],
         [CHR 0xD8, CHR 0xB7, CHR 0xD8, CHR 0xB1, CHR 0xD9, CHR 0x8A, CHR 0xD9, CHR 0x82,
          CHR 0xD8, CHR 0xA9, CHR 0x20, CHR 0xD9, CHR 0x84, CHR 0xD9, CHR 0x84, CHR 0xD8,
          CHR 0xAA, CHR 0xD8, CHR 0xAD, CHR 0xD9, CHR 0x83, CHR 0xD9, CHR 0x85],
         [CHR 0xD8, CHR 0xA7, CHR 0xD9, CHR 0x84, CHR 0xD8, CHR 0xA3, CHR 0xD9, CHR 0x84,
          CHR 0xD9, CHR 0x85, CHR 0x20, CHR 0xD8, CHR 0xA7, CHR 0xD9, CHR 0x84, CHR 0xD9,
          CHR 0x88, CHR 0xD8, CHR 0xAD, CHR 0xD9, CHR 0x8A, CHR 0xD8, CHR 0xAF],
         [CHR 0xD8, CHR 0xA3, CHR 0xD8, CHR 0xAA, CHR 0xD8, CHR 0xAD, CHR 0xD9, CHR 0x83,
          CHR 0xD9, CHR 0x85, CHR 0x20, CHR 0xD9, CHR 0x81, CHR 0xD9, CHR 0x8A, CHR 0x20,
          CHR 0xD8, CHR 0xA3, CHR 0xD9, CHR 0x84, CHR 0xD9, CHR 0x85, CHR 0xD9, CHR 0x8A]]),
      (VIOLENCE,
        [[CHR 0xD8, CHR 0xB3, CHR 0xD8, CHR 0xA3, CHR 0xD9, CHR 0x82, CHR 0xD8, CHR 0xAA,
          CHR 0xD9, CHR 0x84],
         [CHR 0xD8, CHR 0xA3, CHR 0xD8, CHR 0xB1, CHR 0xD9, CHR 0x8A, CHR 0xD8, CHR 0xAF,
          CHR 0x20, CHR 0xD8, CHR 0xA3, CHR 0xD9, CHR 0x86, CHR 0x20, CHR 0xD8, CHR 0xA3,
          CHR 0xD8, CHR 0xA4, CHR 0xD8, CHR 0xB0, CHR 0xD9, CHR 0x8A],
         [CHR 0xD8, CHR 0xB3, CHR 0xD8, CHR 0xA3, CHR 0xD8, CHR 0xB6, CHR 0xD8, CHR 0xB1,
          CHR 0xD8, CHR 0xA8],
         [CHR 0xD8, CHR 0xB3, CHR 0xD8, CHR 0xA3, CHR 0xD8, CHR 0xAF, CHR 0xD9, CHR 0x85,
          CHR 0xD8, CHR 0xB1],
         [CHR 0xD8, CHR 0xA3, CHR 0xD9, CHR 0x86, CHR 0xD8, CHR 0xAA, CHR 0xD9, CHR 0x82,
          CHR 0xD9, CHR 0x85],
         [CHR 0xD8, CHR 0xB3, CHR 0xD8, CHR 0xA3, CHR 0xD8, CHR 0xA4, CHR 0xD8, CHR 0xB0,
          CHR 0xD9, CHR 0x8A, CHR 0x20, CHR 0xD9, CHR 0x85, CHR 0xD9, CHR 0x86],
         [CHR 0xD8, CHR 0xA3, CHR 0xD9, CHR 0x82, CHR 0xD8, CHR 0xAA, CHR 0xD9, CHR 0x84,
          CHR 0xD9, CHR 0x87],
         [CHR 0xD8, CHR 0xA3, CHR 0xD9, CHR 0x83, CHR 0xD8, CHR 0xB3, CHR 0xD8, CHR 0xB1,
          CHR 0x20, CHR 0xD8, CHR 0xB1, CHR 0xD8, CHR 0xA3, CHR 0xD8, CHR 0xB3, CHR 0xD9,
          CHR 0x87],
         [CHR 0xD8, CHR 0xA3, CHR 0xD9, CHR 0x81, CHR 0xD8, CHR 0xAC, CHR 0xD8, CHR 0xB1],
         [CHR 0xD8, CHR 0xA3, CHR 0xD8, CHR 0xAD, CHR 0xD8, CHR 0xB1, CHR 0xD9, CHR 0x82],
         [CHR 0xD8, CHR 0xA3, CHR 0xD8, CHR 0xAF, CHR 0xD9, CHR 0x85, CHR 0xD8, CHR 0xB1,
          CHR 0x20, CHR 0xD9, CHR 0x83, CHR 0xD9, CHR 0x84, CHR 0x20, CHR 0xD8, CHR 0xB4,
          CHR 0xD9, CHR 0x8A, CHR 0xD8, CHR 0xA1],
         [CHR 0xD8, CHR 0xA3, CHR 0xD9, CHR 0x86, CHR 0xD9, CHR 0x87, CHR 0xD9, CHR 0x8A,
          CHR 0x20, CHR 0xD8, CHR 0xA7, CHR 0xD9, CHR 0x84, CHR 0xD8, CHR 0xAC, CHR 0xD9,
          CHR 0x85, CHR 0xD9, CHR 0x8A, CHR 0xD8, CHR 0xB9],
         [CHR 0xD9, CHR 0x84, CHR 0xD8, CHR 0xA7, CHR 0x20, CHR 0xD8, CHR 0xA3, CHR 0xD8,
          CHR 0xB3, CHR 0xD8, CHR 0xAA, CHR 0xD8, CHR 0xB7, CHR 0xD9, CHR 0x8A, CHR 0xD8,
          CHR 0xB9, CHR 0x20, CHR 0xD8, CHR 0xA7, CHR 0xD9, CHR 0x84, CHR 0xD8, CHR 0xAA,
          CHR 0xD8, CHR 0xAD, CHR 0xD9, CHR 0x83, CHR 0xD9, CHR 0x85],
         [CHR 0xD8, CHR 0xB3, CHR 0xD8, CHR 0xA3, CHR 0xD9, CHR 0x81, CHR 0xD9, CHR 0x82,
          CHR 0xD8, CHR 0xAF, CHR 0x20, CHR 0xD8, CHR 0xA7, CHR 0xD9, CHR 0x84, CHR 0xD8,
          CHR 0xB3, CHR 0xD9, CHR 0x8A, CHR 0xD8, CHR 0xB7, CHR 0xD8, CHR 0xB1, CHR 0xD8,
          CHR 0xA9],
         [CHR 0xD8, CHR 0xBA, CHR 0xD8, CHR 0xB6, CHR 0xD8, CHR 0xA8, CHR 0x20, CHR 0xD8,
          CHR 0xB4, CHR 0xD8, CHR 0xAF, CHR 0xD9, CHR 0x8A, CHR 0xD8, CHR 0xAF],
         [CHR 0xD8, CHR 0xA3, CHR 0xD8, CHR 0xB9, CHR 0xD9, CHR 0x85, CHR 0xD9, CHR 0x89,
          CHR 0x20, CHR 0xD9, CHR 0x85, CHR 0xD9, CHR 0x86, CHR 0x20, CHR 0xD8, CHR 0xA7,
          CHR 0xD9, CHR 0x84, CHR 0xD8, CHR 0xBA, CHR 0xD8, CHR 0xB6, CHR 0xD8, CHR 0xA8],
         [CHR 0xD8, CHR 0xB3, CHR 0xD8, CHR 0xA3, CHR 0xD9, CHR 0x81, CHR 0xD8, CHR 0xB9,
          CHR 0xD9, CHR 0x84, CHR 0x20, CHR 0xD8, CHR 0xB4, CHR 0xD9, CHR 0x8A, CHR 0xD8,
          CHR 0xA6, CHR 0xD8, CHR 0xA7, CHR 0xD9, CHR 0x8B, CHR 0x20, CHR 0xD8, CHR 0xB3,
          CHR 0xD9, CHR 0x8A, CHR 0xD8, CHR 0xA6, CHR 0xD8, CHR 0xA7, CHR 0xD9, CHR 0x8B],
         [CHR 0xD8, CHR 0xA3, CHR 0xD9, CHR 0x81, CHR 0xD9, CHR 0x82, CHR 0xD8, CHR 0xAF,
          CHR 0x20, CHR 0xD8, CHR 0xB9, CHR 0xD9, CHR 0x82, CHR 0xD9, CHR 0x84, CHR 0xD9,
          CHR 0x8A]]),
      (SEVERE_DEPRESSION,
        [[CHR 0xD9, CHR 0x84, CHR 0xD8, CHR 0xA7, CHR 0x20, CHR 0xD8, CHR 0xA3, CHR 0xD9,
          CHR 0x85, CHR 0xD9, CHR 0x84],
         [CHR 0xD9, CHR 0x84, CHR 0xD8, CHR 0xA7, CHR 0x20, CHR 0xD9, CHR 0x81, CHR 0xD8,
          CHR 0xA7, CHR 0xD8, CHR 0xA6, CHR 0xD8, CHR 0xAF, CHR 0xD8, CHR 0xA9],
         [CHR 0xD9, CHR 0x85, CHR 0xD8, CHR 0xB3, CHR 0xD8, CHR 0xAA, CHR 0xD8, CHR 0xAD,
          CHR 0xD9, CHR 0x8A, CHR 0xD9, CHR 0x84],
         [CHR 0xD9, CHR 0x85, CHR 0xD9, CHR 0x8A, CHR 0xD8, CHR 0xA4, CHR 0xD9, CHR 0x88,
          CHR 0xD8, CHR 0xB3, CHR 0x20, CHR 0xD9, CHR 0x85, CHR 0xD9, CHR 0x86, CHR 0xD9,
          CHR 0x87],
         [CHR 0xD8, CHR 0xA7, CHR 0xD9, CHR 0x84, CHR 0xD8, CHR 0xB8, CHR 0xD9, CHR 0x84,
          CHR 0xD8, CHR 0xA7, CHR 0xD9, CHR 0x85, CHR 0x20, CHR 0xD9, CHR 0x81, CHR 0xD9,
          CHR 0x82, CHR 0xD8, CHR 0xB7],
         [CHR 0xD9, CHR 0x84, CHR 0xD8, CHR 0xA7, CHR 0x20, CHR 0xD8, CHR 0xB6, CHR 0xD9,
          CHR 0x88, CHR 0xD8, CHR 0xA1],
         [CHR 0xD9, CHR 0x86, CHR 0xD9, CHR 0x81, CHR 0xD9, CHR 0x82, CHR 0x20, CHR 0xD9,
          CHR 0x85, CHR 0xD8, CHR 0xB8, CHR 0xD9, CHR 0x84, CHR 0xD9, CHR 0x85],
         [CHR 0xD9, CHR 0x84, CHR 0xD8, CHR 0xA7, CHR 0x20, CHR 0xD9, CHR 0x85, CHR 0xD8,
          CHR 0xAE, CHR 0xD8, CHR 0xB1, CHR 0xD8, CHR 0xAC],
         [CHR 0xD9, CHR 0x85, CHR 0xD8, CHR 0xB3, CHR 0xD8, CHR 0xAF, CHR 0xD9, CHR 0x88,
          CHR 0xD8, CHR 0xAF, CHR 0x20, CHR 0xD8, CHR 0xA7, CHR 0xD9, CHR 0x84, CHR 0xD8,
          CHR 0xA3, CHR 0xD9, CHR 0x81, CHR 0xD9, CHR 0x82],
         [CHR 0xD9, CHR 0x84, CHR 0xD8, CHR 0xA7, CHR 0x20, CHR 0xD8, CHR 0xAD, CHR 0xD9,
          CHR 0x84],
         [CHR 0xD8, CHR 0xA7, CHR 0xD9, CHR 0x86, CHR 0xD8, CHR 0xAA, CHR 0xD9, CHR 0x87,
          CHR 0xD9, CHR 0x89, CHR 0x20, CHR 0xD9, CHR 0x83, CHR 0xD9, CHR 0x84, CHR 0x20,
          CHR 0xD8, CHR 0xB4, CHR 0xD9, CHR 0x8A, CHR 0xD8, CHR 0xA1],
         [CHR 0xD9, CHR 0x84, CHR 0xD8, CHR 0xA7, CHR 0x20, CHR 0xD9, CHR 0x82, CHR 0xD9,
          CHR 0x8A, CHR 0xD9, CHR 0x85, CHR 0xD8, CHR 0xA9, CHR 0x20, CHR 0xD9, CHR 0x84,
          CHR 0xD9, CHR 0x8A],
         [CHR 0xD9, CHR 0x81, CHR 0xD8, CHR 0xA7, CHR 0xD8, CHR 0xB4, CHR 0xD9, CHR 0x84],
         [CHR 0xD8, CHR 0xB9, CHR 0xD8, CHR 0xAF, CHR 0xD9, CHR 0x8A, CHR 0xD9, CHR 0x85,
          CHR 0x20, CHR 0xD8, CHR 0xA7, CHR 0xD9, CHR 0x84, CHR 0xD9, CHR 0x81, CHR 0xD8,
          CHR 0xA7, CHR 0xD8, CHR 0xA6, CHR 0xD8, CHR 0xAF, CHR 0xD8, CHR 0xA9],
         [CHR 0xD9, CHR 0x84, CHR 0xD8, CHR 0xA7, CHR 0x20, CHR 0xD8, CHR 0xA3, CHR 0xD8,
          CHR 0xB3, CHR 0xD8, CHR 0xAA, CHR 0xD8, CHR 0xAD, CHR 0xD9, CHR 0x82],
         [CHR 0xD8, CHR 0xA3, CHR 0xD8, CHR 0xB3, CHR 0xD9, CHR 0x88, CHR 0xD8, CHR 0xA3,
          CHR 0x20, CHR 0xD8, CHR 0xB4, CHR 0xD8, CHR 0xAE, CHR 0xD8, CHR 0xB5],
         [CHR 0xD9, CHR 0x84, CHR 0xD8, CHR 0xA7, CHR 0x20, CHR 0xD8, CHR 0xA3, CHR 0xD8,
          CHR 0xB5, CHR 0xD9, CHR 0x84, CHR 0xD8, CHR 0xAD, CHR 0x20, CHR 0xD9, CHR 0x84,
          CHR 0xD8, CHR 0xB4, CHR 0xD9, CHR 0x8A, CHR 0xD8, CHR 0xA1],
         [CHR 0xD8, CHR 0xB9, CHR 0xD8, CHR 0xA8, CHR 0xD8, CHR 0xA1, CHR 0x20, CHR 0xD8,
          CHR 0xB9, CHR 0xD9, CHR 0x84, CHR 0xD9, CHR 0x89, CHR 0x20, CHR 0xD8, CHR 0xA7,
          CHR 0xD9, CHR 0x84, CHR 0xD8, CHR 0xAC, CHR 0xD9, CHR 0x85, CHR 0xD9, CHR 0x8A,
          CHR 0xD8, CHR 0xB9],
         [CHR 0xD9, CHR 0x88, CHR 0xD8, CHR 0xAD, CHR 0xD9, CHR 0x8A, CHR 0xD8, CHR 0xAF,
          CHR 0x20, CHR 0xD8, CHR 0xAA, CHR 0xD9, CHR 0x85, CHR 0xD8, CHR 0xA7, CHR 0xD9,
          CHR 0x85, CHR 0xD8, CHR 0xA7, CHR 0xD9, CHR 0x8B],
         [CHR 0xD9, CHR 0x85, CHR 0xD8, CHR 0xAD, CHR 0xD8, CHR 0xAF, CHR 0x20, CHR 0xD9,
          CHR 0x8A, CHR 0xD9, CHR 0x81, CHR 0xD9, CHR 0x87, CHR 0xD9, CHR 0x85, CHR 0xD9,
          CHR 0x86, CHR 0xD9, CHR 0x8A],
         [CHR 0xD9, CHR 0x85, CHR 0xD8, CHR 0xAD, CHR 0xD8, CHR 0xAF, CHR 0x20, CHR 0xD9,
          CHR 0x8A, CHR 0xD8, CHR 0xAD, CHR 0xD8, CHR 0xA8, CHR 0xD9, CHR 0x86, CHR 0xD9,
          CHR 0x8A],
         [CHR 0xD9, CHR 0x85, CHR 0xD9, CHR 0x86, CHR 0xD8, CHR 0xA8, CHR 0xD9, CHR 0x88,
          CHR 0xD8, CHR 0xB0],
         [CHR 0xD9, CHR 0x84, CHR 0xD8, CHR 0xA7, CHR 0x20, CHR 0xD8, CHR 0xA3, CHR 0xD8,
          CHR 0xAD, CHR 0xD8, CHR 0xAF, CHR 0x20, CHR 0xD9, CHR 0x8A, CHR 0xD9, CHR 0x87,
          CHR 0xD8, CHR 0xAA, CHR 0xD9, CHR 0x85],
         [CHR 0xD9, CHR 0x85, CHR 0xD8, CHR 0xB9, CHR 0xD8, CHR 0xB2, CHR 0xD9, CHR 0x88,
          CHR 0xD9, CHR 0x84],
         [CHR 0xD9, CHR 0x85, CHR 0xD9, CHR 0x86, CHR 0xD9, CHR 0x81, CHR 0xD8, CHR 0xB1,
          CHR 0xD8, CHR 0xAF],
         [CHR 0xD9, CHR 0x88, CHR 0xD8, CHR 0xAD, CHR 0xD8, CHR 0xB4]]),
      (PSYCHOSIS,
        [[CHR 0xD8, CHR 0xA3, CHR 0xD8, CHR 0xB3, CHR 0xD9, CHR 0x85, CHR 0xD8, CHR 0xB9,
          CHR 0x20, CHR 0xD8, CHR 0xA3, CHR 0xD8, CHR 0xB5, CHR 0xD9, CHR 0x88, CHR 0xD8,
          CHR 0xA7, CHR 0xD8, CHR 0xAA],
         [CHR 0xD8, CHR 0xA3, CHR 0xD8, CHR 0xB1, CHR 0xD9, CHR 0x89, CHR 0x20, CHR 0xD8,
          CHR 0xA3, CHR 0xD8, CHR 0xB4, CHR 0xD9, CHR 0x8A, CHR 0xD8, CHR 0xA7, CHR 0xD8,
          CHR 0xA1],
         [CHR 0xD9, CHR 0x8A, CHR 0xD8, CHR 0xB1, CHR 0xD8, CHR 0xA7, CHR 0xD9, CHR 0x82,
          CHR 0xD8, CHR 0xA8, CHR 0xD9, CHR 0x88, CHR 0xD9, CHR 0x86, CHR 0xD9, CHR 0x86,
          CHR 0xD9, CHR 0x8A],
         [CHR 0xD9, CHR 0x8A, CHR 0xD8, CHR 0xAA, CHR 0xD8, CHR 0xAC, CHR 0xD8, CHR 0xB3,
          CHR 0xD8, CHR 0xB3, CHR 0xD9, CHR 0x88, CHR 0xD9, CHR 0x86],
         [CHR 0xD9, CHR 0x85, CHR 0xD8, CHR 0xA4, CHR 0xD8, CHR 0xA7, CHR 0xD9, CHR 0x85,
          CHR 0xD8, CHR 0xB1, CHR 0xD8, CHR 0xA9, CHR 0x20, CHR 0xD8, CHR 0xB6, CHR 0xD8,
          CHR 0xAF, CHR 0xD9, CHR 0x8A],
         [CHR 0xD9, CHR 0x8A, CHR 0xD8, CHR 0xB7, CHR 0xD8, CHR 0xA7, CHR 0xD8, CHR 0xB1,
          CHR 0xD8, CHR 0xAF, CHR 0xD9, CHR 0x88, CHR 0xD9, CHR 0x86, CHR 0xD9, CHR 0x86,
          CHR 0xD9, CHR 0x8A],
         [CHR 0xD8, CHR 0xB5, CHR 0xD9, CHR 0x88, CHR 0xD8, CHR 0xAA, CHR 0x20, CHR 0xD9,
          CHR 0x8A, CHR 0xD9, CHR 0x82, CHR 0xD9, CHR 0x88, CHR 0xD9, CHR 0x84, CHR 0x20,
          CHR 0xD9, CHR 0x84, CHR 0xD9, CHR 0x8A],
         [CHR 0xD8, CHR 0xA3, CHR 0xD8, CHR 0xB4, CHR 0xD9, CHR 0x8A, CHR 0xD8, CHR 0xA7,
          CHR 0xD8, CHR 0xA1, CHR 0x20, CHR 0xD8, CHR 0xBA, CHR 0xD8, CHR 0xB1, CHR 0xD9,
          CHR 0x8A, CHR 0xD8, CHR 0xA8, CHR 0xD8, CHR 0xA9],
         [CHR 0xD9, CHR 0x84, CHR 0xD8, CHR 0xB3, CHR 0xD8, CHR 0xAA, CHR 0x20, CHR 0xD8,
          CHR 0xAD, CHR 0xD9, CHR 0x82, CHR 0xD9, CHR 0x8A, CHR 0xD9, CHR 0x82, CHR 0xD9,
          CHR 0x8A],
         [CHR 0xD8, CHR 0xA7, CHR 0xD9, CHR 0x84, CHR 0xD8, CHR 0xB9, CHR 0xD8, CHR 0xA7,
          CHR 0xD9, CHR 0x84, CHR 0xD9, CHR 0x85, CHR 0x20, CHR 0xD9, CHR 0x84, CHR 0xD9,
          CHR 0x8A, CHR 0xD8, CHR 0xB3, CHR 0x20, CHR 0xD8, CHR 0xAD, CHR 0xD9, CHR 0x82,
          CHR 0xD9, CHR 0x8A, CHR 0xD9, CHR 0x82, CHR 0xD9, CHR 0x8A],
         [CHR 0xD8, CHR 0xA3, CHR 0xD9, CHR 0x81, CHR 0xD9, CHR 0x83, CHR 0xD8, CHR 0xA7,
          CHR 0xD8, CHR 0xB1, CHR 0xD9, CHR 0x8A, CHR 0x20, CHR 0xD9, CHR 0x85, CHR 0xD8,
          CHR 0xAE, CHR 0xD8, CHR 0xAA, CHR 0xD9, CHR 0x84, CHR 0xD8, CHR 0xB7, CHR 0xD8,
          CHR 0xA9],
         [CHR 0xD9, CHR 0x84, CHR 0xD8, CHR 0xA7, CHR 0x20, CHR 0xD8, CHR 0xA3, CHR 0xD9,
          CHR 0x81, CHR 0xD9, CHR 0x87, CHR 0xD9, CHR 0x85, CHR 0x20, CHR 0xD9, CHR 0x86,
          CHR 0xD9, CHR 0x81, CHR 0xD8, CHR 0xB3, CHR 0xD9, CHR 0x8A],
         [CHR 0xD9, CHR 0x83, CHR 0xD9, CHR 0x84, CHR 0xD8, CHR 0xA7, CHR 0xD9, CHR 0x85,
          CHR 0x20, CHR 0xD8, CHR 0xBA, CHR 0xD9, CHR 0x8A, CHR 0xD8, CHR 0xB1, CHR 0x20,
          CHR 0xD9, CHR 0x85, CHR 0xD9, CHR 0x86, CHR 0xD8, CHR 0xB7, CHR 0xD9, CHR 0x82,
          CHR 0xD9, CHR 0x8A],
         [CHR 0xD8, CHR 0xB1, CHR 0xD8, CHR 0xB3, CHR 0xD8, CHR 0xA7, CHR 0xD8, CHR 0xA6,
          CHR 0xD9, CHR 0x84, CHR 0x20, CHR 0xD8, CHR 0xAE, CHR 0xD9, CHR 0x81, CHR 0xD9,
          CHR 0x8A, CHR 0xD8, CHR 0xA9],
         [CHR 0xD9, CHR 0x85, CHR 0xD8, CHR 0xB9, CHR 0xD8, CHR 0xA7, CHR 0xD9, CHR 0x86,
          CHR 0xD9, CHR 0x8A, CHR 0x20, CHR 0xD9, CHR 0x85, CHR 0xD8, CHR 0xAE, CHR 0xD9,
          CHR 0x81, CHR 0xD9, CHR 0x8A, CHR 0xD8, CHR 0xA9],
         [CHR 0xD8, CHR 0xB9, CHR 0xD9, CHR 0x84, CHR 0xD8, CHR 0xA7, CHR 0xD9, CHR 0x85,
          CHR 0xD8, CHR 0xA7, CHR 0xD8, CHR 0xAA]]),
      (SUBSTANCE_ABUSE,
        [[CHR 0xD8, CHR 0xA3, CHR 0xD9, CHR 0x81, CHR 0xD8, CHR 0xB1, CHR 0xD8, CHR 0xB7,
          CHR 0x20, CHR 0xD9, CHR 0x81, CHR 0xD9, CHR 0x8A],
         [CHR 0xD8, CHR 0xA5, CHR 0xD8, CHR 0xAF, CHR 0xD9, CHR 0x85, CHR 0xD8, CHR 0xA7,
          CHR 0xD9, CHR 0x86],
         [CHR 0xD9, CHR 0x85, CHR 0xD8, CHR 0xAE, CHR 0xD8, CHR 0xAF, CHR 0xD8, CHR 0xB1,
          CHR 0xD8, CHR 0xA7, CHR 0xD8, CHR 0xAA],
         [CHR 0xD9, CHR 0x83, CHR 0xD8, CHR 0xAD, CHR 0xD9, CHR 0x88, CHR 0xD9, CHR 0x84],
         [CHR 0xD8, CHR 0xAD, CHR 0xD8, CHR 0xA8, CHR 0xD9, CHR 0x88, CHR 0xD8, CHR 0xA8],
         [CHR 0xD9, CHR 0x84, CHR 0xD8, CHR 0xA7, CHR 0x20, CHR 0xD8, CHR 0xA3, CHR 0xD8,
          CHR 0xB3, CHR 0xD8, CHR 0xAA, CHR 0xD8, CHR 0xB7, CHR 0xD9, CHR 0x8A, CHR 0xD8,
          CHR 0xB9, CHR 0x20, CHR 0xD8, CHR 0xA7, CHR 0xD9, CHR 0x84, CHR 0xD8, CHR 0xAA,
          CHR 0xD9, CHR 0x88, CHR 0xD9, CHR 0x82, CHR 0xD9, CHR 0x81],
         [CHR 0xD8, CHR 0xA3, CHR 0xD8, CHR 0xAD, CHR 0xD8, CHR 0xAA, CHR 0xD8, CHR 0xA7,
          CHR 0xD8, CHR 0xAC, CHR 0x20, CHR 0xD8, CHR 0xA7, CHR 0xD9, CHR 0x84, CHR 0xD9,
          CHR 0x85, CHR 0xD8, CHR 0xB2, CHR 0xD9, CHR 0x8A, CHR 0xD8, CHR 0xAF],
         [CHR 0xD8, CHR 0xA7, CHR 0xD9, CHR 0x86, CHR 0xD8, CHR 0xB3, CHR 0xD8, CHR 0xAD,
          CHR 0xD8, CHR 0xA7, CHR 0xD8, CHR 0xA8],
         [CHR 0xD8, CHR 0xAC, CHR 0xD8, CHR 0xB1, CHR 0xD8, CHR 0xB9, CHR 0xD8, CHR 0xA9,
          CHR 0x20, CHR 0xD8, CHR 0xB2, CHR 0xD8, CHR 0xA7, CHR 0xD8, CHR 0xA6, CHR 0xD8,
          CHR 0xAF, CHR 0xD8, CHR 0xA9],
         [CHR 0xD8, CHR 0xAA, CHR 0xD8, CHR 0xB3, CHR 0xD9, CHR 0x85, CHR 0xD9, CHR 0x85],
         [CHR 0xD8, CHR 0xA3, CHR 0xD8, CHR 0xB9, CHR 0xD8, CHR 0xB1, CHR 0xD8, CHR 0xA7,
          CHR 0xD8, CHR 0xB6],
         [CHR 0xD8, CHR 0xA7, CHR 0xD8, CHR 0xB9, CHR 0xD8, CHR 0xAA, CHR 0xD9, CHR 0x85,
          CHR 0xD8, CHR 0xA7, CHR 0xD8, CHR 0xAF]])]"

definition build_crisis_patterns :: "(string \<times> CrisisType \<times> real) list" where
  "build_crisis_patterns =
     [
      ([CHR 0x28, CHR 0xD8, CHR 0xA3, CHR 0xD8, CHR 0xB1, CHR 0xD9, CHR 0x8A, CHR 0xD8,
        CHR 0xAF, CHR 0x7C, CHR 0xD8, CHR 0xA8, CHR 0xD8, CHR 0xAF, CHR 0xD9, CHR 0x8A,
        CHR 0x7C, CHR 0xD9, CHR 0x86, CHR 0xD9, CHR 0x81, CHR 0xD8, CHR 0xB3, CHR 0xD9,
        CHR 0x8A, CHR 0x29, CHR 0x2E, CHR 0x2A, CHR 0x28, CHR 0xD8, CHR 0xA3, CHR 0xD9,
        CHR 0x85, CHR 0xD9, CHR 0x88, CHR 0xD8, CHR 0xAA, CHR 0x7C, CHR 0xD8, CHR 0xA3,
        CHR 0xD9, CHR 0x82, CHR 0xD8, CHR 0xAA, CHR 0xD9, CHR 0x84, CHR 0x20, CHR 0xD9,
        CHR 0x86, CHR 0xD9, CHR 0x81, CHR 0xD8, CHR 0xB3, CHR 0xD9, CHR 0x8A, CHR 0x7C,
        CHR 0xD8, CHR 0xA3, CHR 0xD9, CHR 0x86, CHR 0xD8, CHR 0xAA, CHR 0xD8, CHR 0xAD,
        CHR 0xD8, CHR 0xB1, CHR 0x29],
        (SUICIDE, 9 / 10)),
      ([CHR 0x28, CHR 0xD8, CHR 0xB3, CHR 0xD8, CHR 0xA3, CHR 0xD9, CHR 0x82, CHR 0xD8,
        CHR 0xAA, CHR 0xD9, CHR 0x84, CHR 0x7C, CHR 0xD8, CHR 0xB1, CHR 0xD8, CHR 0xA7,
        CHR 0xD8, CHR 0xAD, CHR 0x20, CHR 0xD8, CHR 0xA3, CHR 0xD9, CHR 0x82, CHR 0xD8,
        CHR 0xAA, CHR 0xD9, CHR 0x84, CHR 0x29, CHR 0x2E, CHR 0x2A, CHR 0x28, CHR 0xD9,
        CHR 0x86, CHR 0xD9, CHR 0x81, CHR 0xD8, CHR 0xB3, CHR 0xD9, CHR 0x8A, CHR 0x7C,
        CHR 0xD8, CHR 0xB1, CHR 0xD9, CHR 0x88, CHR 0xD8, CHR 0xAD, CHR 0xD9, CHR 0x8A, CHR 0x29],
        (SUICIDE, 19 / 20)),
      ([CHR 0x28, CHR 0xD9, CHR 0x84, CHR 0xD8, CHR 0xA7, CHR 0x20, CHR 0xD8, CHR 0xA3,
        CHR 0xD8, CHR 0xB1, CHR 0xD9, CHR 0x8A, CHR 0xD8, CHR 0xAF, CHR 0x7C, CHR 0xD9,
        CHR 0x85, CHR 0xD8, CHR 0xA7, CHR 0x20, CHR 0xD8, CHR 0xA8, CHR 0xD8, CHR 0xAF,
        CHR 0xD9, CHR 0x8A, CHR 0x29, CHR 0x2E, CHR 0x2A, CHR 0x28, CHR 0xD8, CHR 0xA3,
        CHR 0xD8, CHR 0xB9, CHR 0xD9, CHR 0x8A, CHR 0xD8, CHR 0xB4, CHR 0x7C, CHR 0xD8,
        CHR 0xA3, CHR 0xD9, CHR 0x83, CHR 0xD9, CHR 0x85, CHR 0xD9, CHR 0x84, CHR 0x7C,
        CHR 0xD8, CHR 0xA3, CHR 0xD8, CHR 0xB3, CHR 0xD8, CHR 0xAA, CHR 0xD9, CHR 0x85,
        CHR 0xD8, CHR 0xB1, CHR 0x29],
        (SUICIDE, 4 / 5)),
      ([CHR 0x28, CHR 0xD8, CHR 0xA3, CHR 0xD8, CHR 0xA4, CHR 0xD8, CHR 0xB0, CHR 0xD9,
        CHR 0x8A, CHR 0x7C, CHR 0xD8, CHR 0xA3, CHR 0xD8, CHR 0xAC, CHR 0xD8, CHR 0xB1,
        CHR 0xD8, CHR 0xAD, CHR 0x7C, CHR 0xD8, CHR 0xA3, CHR 0xD9, CHR 0x82, CHR 0xD8,
        CHR 0xB7, CHR 0xD8, CHR 0xB9, CHR 0x29, CHR 0x2E, CHR 0x2A, CHR 0x28, CHR 0xD9,
        CHR 0x86, CHR 0xD9, CHR 0x81, CHR 0xD8, CHR 0xB3, CHR 0xD9, CHR 0x8A, CHR 0x7C,
        CHR 0xD8, CHR 0xB1, CHR 0xD9, CHR 0x88, CHR 0xD8, CHR 0xAD, CHR 0xD9, CHR 0x8A, CHR 0x29],
        (SELF_HARM, 17 / 20)),
      ([CHR 0x28, CHR 0xD8, CHR 0xB4, CHR 0xD9, CHR 0x81, CHR 0xD8, CHR 0xB1, CHR 0xD8,
        CHR 0xA9, CHR 0x7C, CHR 0xD8, CHR 0xB3, CHR 0xD9, CHR 0x83, CHR 0xD9, CHR 0x8A,
        CHR 0xD9, CHR 0x86, CHR 0x7C, CHR 0xD8, CHR 0xAD, CHR 0xD8, CHR 0xB1, CHR 0xD9,
        CHR 0x82, CHR 0x29, CHR 0x2E, CHR 0x2A, CHR 0x28, CHR 0xD9, CHR 0x86, CHR 0xD9,
        CHR 0x81, CHR 0xD8, CHR 0xB3, CHR 0x7C, CHR 0xD8, CHR 0xAC, CHR 0xD8, CHR 0xB3,
        CHR 0xD9, CHR 0x85, CHR 0x29],
        (SELF_HARM, 4 / 5)),
      ([CHR 0x28, CHR 0xD8, CHR 0xB3, CHR 0xD8, CHR 0xA3, CHR 0xD9, CHR 0x82, CHR 0xD8,
        CHR 0xAA, CHR 0xD9, CHR 0x84, CHR 0x7C, CHR 0xD8, CHR 0xB1, CHR 0xD8, CHR 0xA7,
        CHR 0xD8, CHR 0xAD, CHR 0x20, CHR 0xD8, CHR 0xA3, CHR 0xD9, CHR 0x82, CHR 0xD8,
        CHR 0xAA, CHR 0xD9, CHR 0x84, CHR 0x7C, CHR 0xD8, CHR 0xA3, CHR 0xD9, CHR 0x82,
        CHR 0xD8, CHR 0xAA, CHR 0xD9, CHR 0x84, CHR 0x29, CHR 0x2E, CHR 0x2A, CHR 0x28,
        CHR 0xD9, CHR 0x83, CHR 0xD9, CHR 0x84, CHR 0x7C, CHR 0xD8, CHR 0xAC, CHR 0xD9,
        CHR 0x85, CHR 0xD9, CHR 0x8A, CHR 0xD8, CHR 0xB9, CHR 0x7C, CHR 0xD8, CHR 0xA7,
        CHR 0xD9, CHR 0x84, CHR 0xD9, CHR 0x86, CHR 0xD8, CHR 0xA7, CHR 0xD8, CHR 0xB3, CHR 0x29],
        (VIOLENCE, 9 / 10)),
      ([CHR 0x28, CHR 0xD8, CHR 0xA3, CHR 0xD8, CHR 0xA4, CHR 0xD8, CHR 0xB0, CHR 0xD9,
        CHR 0x8A, CHR 0x7C, CHR 0xD8, CHR 0xA3, CHR 0xD8, CHR 0xB6, CHR 0xD8, CHR 0xB1,
        CHR 0xD8, CHR 0xA8, CHR 0x7C, CHR 0xD8, CHR 0xA3, CHR 0xD9, CHR 0x83, CHR 0xD8,
        CHR 0xB3, CHR 0xD8, CHR 0xB1, CHR 0x29, CHR 0x2E, CHR 0x2A, CHR 0x28, CHR 0xD8,
        CHR 0xA3, CHR 0xD8, CHR 0xAD, CHR 0xD8, CHR 0xAF, CHR 0x7C, CHR 0xD8, CHR 0xB4,
        CHR 0xD8, CHR 0xAE, CHR 0xD8, CHR 0xB5, CHR 0x7C, CHR 0xD9, CHR 0x88, CHR 0xD8,
        CHR 0xA7, CHR 0xD8, CHR 0xAD, CHR 0xD8, CHR 0xAF, CHR 0x29],
        (VIOLENCE, 7 / 10)),
      ([CHR 0x28, CHR 0xD9, CHR 0x84, CHR 0xD8, CHR 0xA7, CHR 0x20, CHR 0xD8, CHR 0xA3,
        CHR 0xD9, CHR 0x85, CHR 0xD9, CHR 0x84, CHR 0x7C, CHR 0xD9, CHR 0x84, CHR 0xD8,
        CHR 0xA7, CHR 0x20, CHR 0xD9, CHR 0x81, CHR 0xD8, CHR 0xA7, CHR 0xD8, CHR 0xA6,
        CHR 0xD8, CHR 0xAF, CHR 0xD8, CHR 0xA9, CHR 0x7C, CHR 0xD9, CHR 0x85, CHR 0xD8,
        CHR 0xB3, CHR 0xD8, CHR 0xAA, CHR 0xD8, CHR 0xAD, CHR 0xD9, CHR 0x8A, CHR 0xD9,
        CHR 0x84, CHR 0x29, CHR 0x2E, CHR 0x2A, CHR 0x28, CHR 0xD9, CHR 0x86, CHR 0xD9,
        CHR 0x87, CHR 0xD8, CHR 0xA7, CHR 0xD8, CHR 0xA6, CHR 0xD9, CHR 0x8A, CHR 0xD8,
        CHR 0xA7, CHR 0xD9, CHR 0x8B, CHR 0x7C, CHR 0xD8, CHR 0xA3, CHR 0xD8, CHR 0xA8,
        CHR 0xD8, CHR 0xAF, CHR 0xD8, CHR 0xA7, CHR 0xD9, CHR 0x8B, CHR 0x7C, CHR 0xD8,
        CHR 0xAA, CHR 0xD9, CHR 0x85, CHR 0xD8, CHR 0xA7, CHR 0xD9, CHR 0x85, CHR 0xD8,
        CHR 0xA7, CHR 0xD9, CHR 0x8B, CHR 0x29],
        (SEVERE_DEPRESSION, 7 / 10)),
      ([CHR 0x28, CHR 0xD8, CHR 0xB9, CHR 0xD8, CHR 0xA8, CHR 0xD8, CHR 0xA1, CHR 0x7C,
        CHR 0xD9, CHR 0x81, CHR 0xD8, CHR 0xA7, CHR 0xD8, CHR 0xB4, CHR 0xD9, CHR 0x84,
        CHR 0x7C, CHR 0xD8, CHR 0xB9, CHR 0xD8, CHR 0xAF, CHR 0xD9, CHR 0x8A, CHR 0xD9,
        CHR 0x85, CHR 0x29, CHR 0x2E, CHR 0x2A, CHR 0x28, CHR 0xD8, CHR 0xA7, CHR 0xD9,
        CHR 0x84, CHR 0xD8, CHR 0xAC, CHR 0xD9, CHR 0x85, CHR 0xD9, CHR 0x8A, CHR 0xD8,
        CHR 0xB9, CHR 0x7C, CHR 0xD8, CHR 0xA7, CHR 0xD9, CHR 0x84, CHR 0xD9, CHR 0x83,
        CHR 0xD9, CHR 0x84, CHR 0x7C, CHR 0xD8, CHR 0xA7, CHR 0xD9, CHR 0x84, CHR 0xD9,
        CHR 0x86, CHR 0xD8, CHR 0xA7, CHR 0xD8, CHR 0xB3, CHR 0x29],
        (SEVERE_DEPRESSION, 3 / 5))]"

definition build_omani_crisis_expressions :: "(CrisisType \<times> string list) list" where
  "build_omani_crisis_expressions =
     [
      (SUICIDE,
        [[CHR 0xD8, CHR 0xAE, CHR 0xD9, CHR 0x84, CHR 0xD8, CHR 0xA7, CHR 0xD8, CHR 0xB5,
          CHR 0x20, CHR 0xD8, CHR 0xAA, CHR 0xD8, CHR 0xB9, CHR 0xD8, CHR 0xA8, CHR 0xD8,
          CHR 0xAA, CHR 0x20, CHR 0xD9, CHR 0x85, CHR 0xD9, CHR 0x86, CHR 0x20, CHR 0xD8,
          CHR 0xA7, CHR 0xD9, CHR 0x84, CHR 0xD8, CHR 0xAF, CHR 0xD9, CHR 0x86, CHR 0xD9,
          CHR 0x8A, CHR 0xD8, CHR 0xA7],
         [CHR 0xD9, CHR 0x85, CHR 0xD8, CHR 0xA7, CHR 0x20, CHR 0xD8, CHR 0xB9, CHR 0xD8,
          CHR 0xAF, CHR 0x20, CHR 0xD8, CHR 0xA3, CHR 0xD9, CHR 0x82, CHR 0xD8, CHR 0xAF,
          CHR 0xD8, CHR 0xB1, CHR 0x20, CHR 0xD8, CHR 0xA3, CHR 0xD9, CHR 0x83, CHR 0xD9,
          CHR 0x85, CHR 0xD9, CHR 0x84],
         [CHR 0xD8, CHR 0xA3, CHR 0xD8, CHR 0xB1, CHR 0xD8, CHR 0xAA, CHR 0xD8, CHR 0xA7,
          CHR 0xD8, CHR 0xAD, CHR 0x20, CHR 0xD9, CHR 0x84, CHR 0xD9, CHR 0x88, CHR 0x20,
          CHR 0xD8, CHR 0xB1, CHR 0xD8, CHR 0xAD, CHR 0xD8, CHR 0xAA],
         [CHR 0xD9, CHR 0x85, CHR 0xD9, CHR 0x84, CHR 0xD9, CHR 0x84, CHR 0xD8, CHR 0xAA,
          CHR 0x20, CHR 0xD9, CHR 0x85, CHR 0xD9, CHR 0x86, CHR 0x20, CHR 0xD9, CHR 0x83,
          CHR 0xD9, CHR 0x84, CHR 0x20, CHR 0xD8, CHR 0xB4, CHR 0xD9, CHR 0x8A],
         [CHR 0xD9, CHR 0x85, CHR 0xD8, CHR 0xA7, CHR 0x20, CHR 0xD9, CHR 0x84, CHR 0xD9,
          CHR 0x8A, CHR 0x20, CHR 0xD9, CHR 0x81, CHR 0xD8, CHR 0xA7, CHR 0xD9, CHR 0x8A,
          CHR 0xD8, CHR 0xAF, CHR 0xD8, CHR 0xA9],
         [CHR 0xD8, CHR 0xA7, CHR 0xD9, CHR 0x84, CHR 0xD9, CHR 0x85, CHR 0xD9, CHR 0x88,
          CHR 0xD8, CHR 0xAA, CHR 0x20, CHR 0xD8, CHR 0xA3, CHR 0xD8, CHR 0xAD, CHR 0xD8,
          CHR 0xB3, CHR 0xD9, CHR 0x86, CHR 0x20, CHR 0xD9, CHR 0x84, CHR 0xD9, CHR 0x8A],
         [CHR 0xD8, CHR 0xAE, CHR 0xD9, CHR 0x84, CHR 0xD8, CHR 0xB5, CHR 0xD8, CHR 0xAA,
          CHR 0x20, CHR 0xD9, CHR 0x85, CHR 0xD9, CHR 0x86, CHR 0x20, CHR 0xD9, CHR 0x87,
          CHR 0xD8, CHR 0xA7, CHR 0xD9, CHR 0x84, CHR 0xD8, CHR 0xAD, CHR 0xD9, CHR 0x8A,
          CHR 0xD8, CHR 0xA7, CHR 0xD8, CHR 0xA9]]),
      (SELF_HARM,
        [[CHR 0xD8, CHR 0xA3, CHR 0xD8, CHR 0xB9, CHR 0xD8, CHR 0xB0, CHR 0xD8, CHR 0xA8,
          CHR 0x20, CHR 0xD8, CHR 0xB1, CHR 0xD9, CHR 0x88, CHR 0xD8, CHR 0xAD, CHR 0xD9,
          CHR 0x8A],
         [CHR 0xD8, CHR 0xA3, CHR 0xD9, CHR 0x88, CHR 0xD8, CHR 0xAC, CHR 0xD8, CHR 0xB9,
          CHR 0x20, CHR 0xD9, CHR 0x86, CHR 0xD9, CHR 0x81, CHR 0xD8, CHR 0xB3, CHR 0xD9,
          CHR 0x8A],
         [CHR 0xD8, CHR 0xA3, CHR 0xD8, CHR 0xB6, CHR 0xD8, CHR 0xB1, CHR 0x20, CHR 0xD8,
          CHR 0xA8, CHR 0xD8, CHR 0xB1, CHR 0xD9, CHR 0x88, CHR 0xD8, CHR 0xAD, CHR 0xD9,
          CHR 0x8A],
         [CHR 0xD8, CHR 0xA3, CHR 0xD8, CHR 0xB3, CHR 0xD8, CHR 0xAA, CHR 0xD8, CHR 0xA7,
          CHR 0xD9, CHR 0x87, CHR 0xD9, CHR 0x84, CHR 0x20, CHR 0xD8, CHR 0xA7, CHR 0xD9,
          CHR 0x84, CHR 0xD8, CHR 0xA3, CHR 0xD9, CHR 0x84, CHR 0xD9, CHR 0x85],
         [CHR 0xD8, CHR 0xA3, CHR 0xD9, CHR 0x84, CHR 0xD9, CHR 0x85, CHR 0x20, CHR 0xD8,
          CHR 0xA3, CHR 0xD8, CHR 0xAD, CHR 0xD8, CHR 0xB3, CHR 0xD9, CHR 0x87, CHR 0x20,
          CHR 0xD8, CHR 0xA8, CHR 0xD8, CHR 0xAC, CHR 0xD8, CHR 0xB3, CHR 0xD9, CHR 0x85,
          CHR 0xD9, CHR 0x8A]]),
      (SEVERE_DEPRESSION,
        [[CHR 0xD9, CHR 0x85, CHR 0xD8, CHR 0xAD, CHR 0xD8, CHR 0xB7, CHR 0xD9, CHR 0x85,
          CHR 0x20, CHR 0xD9, CHR 0x86, CHR 0xD9, CHR 0x81, CHR 0xD8, CHR 0xB3, CHR 0xD9,
          CHR 0x8A, CHR 0xD8, CHR 0xA7, CHR 0xD9, CHR 0x8B, CHR 0x20, CHR 0xD9, CHR 0x88,
          CHR 0xD8, CHR 0xA7, CHR 0xD8, CHR 0xAC, CHR 0xD8, CHR 0xAF],
         [CHR 0xD8, CHR 0xB6, CHR 0xD8, CHR 0xA7, CHR 0xD9, CHR 0x8A, CHR 0xD9, CHR 0x82,
          CHR 0x20, CHR 0xD8, CHR 0xB5, CHR 0xD8, CHR 0xAF, CHR 0xD8, CHR 0xB1, CHR 0xD9,
          CHR 0x8A, CHR 0x20, CHR 0xD9, CHR 0x85, CHR 0xD8, CHR 0xB1, CHR 0xD8, CHR 0xA9],
         [CHR 0xD9, CHR 0x82, CHR 0xD9, CHR 0x84, CHR 0xD8, CHR 0xA8, CHR 0xD9, CHR 0x8A,
          CHR 0x20, CHR 0xD9, CHR 0x85, CHR 0xD9, CHR 0x83, CHR 0xD8, CHR 0xB3, CHR 0xD9,
          CHR 0x88, CHR 0xD8, CHR 0xB1],
         [CHR 0xD8, CHR 0xAD, CHR 0xD8, CHR 0xA7, CHR 0xD9, CHR 0x84, CHR 0xD8, CHR 0xAA,
          CHR 0xD9, CHR 0x8A, CHR 0x20, CHR 0xD8, CHR 0xB2, CHR 0xD9, CHR 0x8A, CHR 0xD9,
          CHR 0x86, CHR 0xD8, CHR 0xA9, CHR 0x20, CHR 0xD9, CHR 0x85, CHR 0xD8, CHR 0xA7,
          CHR 0x20, CHR 0xD9, CHR 0x87, CHR 0xD9, CHR 0x8A],
         [CHR 0xD9, CHR 0x86, CHR 0xD9, CHR 0x81, CHR 0xD8, CHR 0xB3, CHR 0xD9, CHR 0x8A,
          CHR 0xD8, CHR 0xAA, CHR 0xD9, CHR 0x8A, CHR 0x20, CHR 0xD9, CHR 0x81, CHR 0xD9,
          CHR 0x8A, CHR 0x20, CHR 0xD8, CHR 0xA7, CHR 0xD9, CHR 0x84, CHR 0xD8, CHR 0xA3,
          CHR 0xD8, CHR 0xB1, CHR 0xD8, CHR 0xB6],
         [CHR 0xD8, CHR 0xAF, CHR 0xD8, CHR 0xA7, CHR 0xD9, CHR 0x8A, CHR 0xD8, CHR 0xAE,
          CHR 0x20, CHR 0xD9, CHR 0x85, CHR 0xD9, CHR 0x86, CHR 0x20, CHR 0xD8, CHR 0xA7,
          CHR 0xD9, CHR 0x84, CHR 0xD9, CHR 0x87, CHR 0xD9, CHR 0x85, CHR 0xD9, CHR 0x88,
          CHR 0xD9, CHR 0x85]]),
      (VIOLENCE,
        [[CHR 0xD8, CHR 0xB1, CHR 0xD8, CHR 0xA7, CHR 0xD8, CHR 0xAD, CHR 0x20, CHR 0xD8,
          CHR 0xA3, CHR 0xD9, CHR 0x83, CHR 0xD8, CHR 0xB3, CHR 0xD8, CHR 0xB1, CHR 0x20,
          CHR 0xD9, CHR 0x83, CHR 0xD9, CHR 0x84, CHR 0x20, CHR 0xD8, CHR 0xB4, CHR 0xD9,
          CHR 0x8A],
         [CHR 0xD8, CHR 0xA3, CHR 0xD9, CHR 0x81, CHR 0xD8, CHR 0xAC, CHR 0xD8, CHR 0xB1,
          CHR 0x20, CHR 0xD9, CHR 0x81, CHR 0xD9, CHR 0x8A, CHR 0xD9, CHR 0x87, CHR 0xD9,
          CHR 0x85],
         [CHR 0xD8, CHR 0xA3, CHR 0xD9, CHR 0x88, CHR 0xD8, CHR 0xB1, CHR 0xD8, CHR 0xAC,
          CHR 0xD9, CHR 0x8A, CHR 0xD9, CHR 0x87, CHR 0xD9, CHR 0x85],
         [CHR 0xD8, CHR 0xA3, CHR 0xD8, CHR 0xAE, CHR 0xD9, CHR 0x84, CHR 0xD9, CHR 0x8A,
          CHR 0xD9, CHR 0x87, CHR 0xD9, CHR 0x85, CHR 0x20, CHR 0xD9, CHR 0x8A, CHR 0xD9,
          CHR 0x86, CHR 0xD8, CHR 0xAF, CHR 0xD9, CHR 0x85, CHR 0xD9, CHR 0x88, CHR 0xD9,
          CHR 0x86],
         [CHR 0xD9, CHR 0x85, CHR 0xD8, CHR 0xA7, CHR 0x20, CHR 0xD8, CHR 0xB1, CHR 0xD8,
          CHR 0xA7, CHR 0xD8, CHR 0xAD, CHR 0x20, CHR 0xD8, CHR 0xA3, CHR 0xD8, CHR 0xB3,
          CHR 0xD9, CHR 0x83, CHR 0xD8, CHR 0xAA]])]"

definition build_emergency_resources :: emergency_directory where
  "build_emergency_resources =
     \<lparr>emergency = map_of
        [(''general_emergency'', ''999''),
         (''police'', ''999''),
         (''ambulance'', ''999''),
         (''fire'', ''999'')],
      hospitals = map_of
        [(''sultan_qaboos_hospital'', ''+968 24211411''),
         (''royal_hospital'', ''+968 24599000''),
         (''khoula_hospital'', ''+968 24560441''),
         (''nizwa_hospital'', ''+968 25431800'')],
      mental_health = map_of
        [(''mental_health_hotline'', [CHR 0xD9, CHR 0x85, CHR 0xD9, CHR 0x83, CHR 0xD8, CHR 0xAA, CHR 0xD9, CHR 0x88,
           CHR 0xD8, CHR 0xA8, CHR 0x20, CHR 0xD9, CHR 0x82, CHR 0xD8, CHR 0xB1, CHR 0xD9,
           CHR 0x8A, CHR 0xD8, CHR 0xA8, CHR 0xD8, CHR 0xA7, CHR 0xD9, CHR 0x8B]),
         (''psychological_services'', [CHR 0xD9, CHR 0x88, CHR 0xD8, CHR 0xB2, CHR 0xD8, CHR 0xA7, CHR 0xD8, CHR 0xB1,
           CHR 0xD8, CHR 0xA9, CHR 0x20, CHR 0xD8, CHR 0xA7, CHR 0xD9, CHR 0x84, CHR 0xD8,
           CHR 0xB5, CHR 0xD8, CHR 0xAD, CHR 0xD8, CHR 0xA9, CHR 0x20, CHR 0x2D, CHR 0x20,
           CHR 0xD8, CHR 0xA7, CHR 0xD9, CHR 0x84, CHR 0xD8, CHR 0xAE, CHR 0xD8, CHR 0xAF,
           CHR 0xD9, CHR 0x85, CHR 0xD8, CHR 0xA7, CHR 0xD8, CHR 0xAA, CHR 0x20, CHR 0xD8,
           CHR 0xA7, CHR 0xD9, CHR 0x84, CHR 0xD9, CHR 0x86, CHR 0xD9, CHR 0x81, CHR 0xD8,
           CHR 0xB3, CHR 0xD9, CHR 0x8A, CHR 0xD8, CHR 0xA9]),
         (''crisis_intervention'', [CHR 0xD9, CHR 0x82, CHR 0xD8, CHR 0xB3, CHR 0xD9, CHR 0x85, CHR 0x20, CHR 0xD8,
           CHR 0xA7, CHR 0xD9, CHR 0x84, CHR 0xD8, CHR 0xB7, CHR 0xD9, CHR 0x88, CHR 0xD8,
           CHR 0xA7, CHR 0xD8, CHR 0xB1, CHR 0xD8, CHR 0xA6, CHR 0x20, CHR 0xD8, CHR 0xA7,
           CHR 0xD9, CHR 0x84, CHR 0xD9, CHR 0x86, CHR 0xD9, CHR 0x81, CHR 0xD8, CHR 0xB3,
           CHR 0xD9, CHR 0x8A, CHR 0xD8, CHR 0xA9]),
         (''social_services'', [CHR 0xD9, CHR 0x88, CHR 0xD8, CHR 0xB2, CHR 0xD8, CHR 0xA7, CHR 0xD8, CHR 0xB1,
           CHR 0xD8, CHR 0xA9, CHR 0x20, CHR 0xD8, CHR 0xA7, CHR 0xD9, CHR 0x84, CHR 0xD8,
           CHR 0xAA, CHR 0xD9, CHR 0x86, CHR 0xD9, CHR 0x85, CHR 0xD9, CHR 0x8A, CHR 0xD8,
           CHR 0xA9, CHR 0x20, CHR 0xD8, CHR 0xA7, CHR 0xD9, CHR 0x84, CHR 0xD8, CHR 0xA7,
           CHR 0xD8, CHR 0xAC, CHR 0xD8, CHR 0xAA, CHR 0xD9, CHR 0x85, CHR 0xD8, CHR 0xA7,
           CHR 0xD8, CHR 0xB9, CHR 0xD9, CHR 0x8A, CHR 0xD8, CHR 0xA9])],
      support = map_of
        [(''family_guidance'', [CHR 0xD9, CHR 0x85, CHR 0xD8, CHR 0xB1, CHR 0xD8, CHR 0xA7, CHR 0xD9, CHR 0x83,
           CHR 0xD8, CHR 0xB2, CHR 0x20, CHR 0xD8, CHR 0xA7, CHR 0xD9, CHR 0x84, CHR 0xD8,
           CHR 0xA5, CHR 0xD8, CHR 0xB1, CHR 0xD8, CHR 0xB4, CHR 0xD8, CHR 0xA7, CHR 0xD8,
           CHR 0xAF, CHR 0x20, CHR 0xD8, CHR 0xA7, CHR 0xD9, CHR 0x84, CHR 0xD8, CHR 0xA3,
           CHR 0xD8, CHR 0xB3, CHR 0xD8, CHR 0xB1, CHR 0xD9, CHR 0x8A]),
         (''youth_centers'', [CHR 0xD9, CHR 0x85, CHR 0xD8, CHR 0xB1, CHR 0xD8, CHR 0xA7, CHR 0xD9, CHR 0x83,
           CHR 0xD8, CHR 0xB2, CHR 0x20, CHR 0xD8, CHR 0xA7, CHR 0xD9, CHR 0x84, CHR 0xD8,
           CHR 0xB4, CHR 0xD8, CHR 0xA8, CHR 0xD8, CHR 0xA7, CHR 0xD8, CHR 0xA8]),
         (''women_centers'', [CHR 0xD9, CHR 0x85, CHR 0xD8, CHR 0xB1, CHR 0xD8, CHR 0xA7, CHR 0xD9, CHR 0x83,
           CHR 0xD8, CHR 0xB2, CHR 0x20, CHR 0xD8, CHR 0xA7, CHR 0xD9, CHR 0x84, CHR 0xD9,
           CHR 0x85, CHR 0xD8, CHR 0xB1, CHR 0xD8, CHR 0xA3, CHR 0xD8, CHR 0xA9]),
         (''community_centers'', [CHR 0xD8, CHR 0xA7, CHR 0xD9, CHR 0x84, CHR 0xD9, CHR 0x85, CHR 0xD8, CHR 0xB1,
           CHR 0xD8, CHR 0xA7, CHR 0xD9, CHR 0x83, CHR 0xD8, CHR 0xB2, CHR 0x20, CHR 0xD8,
           CHR 0xA7, CHR 0xD9, CHR 0x84, CHR 0xD9, CHR 0x85, CHR 0xD8, CHR 0xAC, CHR 0xD8,
           CHR 0xAA, CHR 0xD9, CHR 0x85, CHR 0xD8, CHR 0xB9, CHR 0xD9, CHR 0x8A, CHR 0xD8,
           CHR 0xA9])]\<rparr>"

text \<open>\<^verbatim>\<open>__init__\<close>: the four tables are built and stored as they are; the session map is empty.\<close>

definition init :: CrisisDetectionSystem where
  "init =
     \<lparr>crisis_keywords = build_crisis_keywords,
      crisis_patterns = build_crisis_patterns,
      omani_crisis_expressions = build_omani_crisis_expressions,
      emergency_resources = build_emergency_resources,
      session_history = Map.empty\<rparr>"

subsection \<open>Channel matchers\<close>

text \<open>
  The inner loop of \<^verbatim>\<open>_check_crisis_keywords\<close>: one pass over the keywords of a
  type, \<^verbatim>\<open>score\<close> and \<^verbatim>\<open>found_keywords\<close> updated together.
\<close>

fun scan_keywords ::
  "(string \<Rightarrow> string) \<Rightarrow> string \<Rightarrow> string list \<Rightarrow> nat \<times> string list \<Rightarrow> nat \<times> string list" where
  "scan_keywords lower text [] (score, found_keywords) = (score, found_keywords)"
| "scan_keywords lower text (keyword # keywords) (score, found_keywords) =
     (if str_contains (lower keyword) text
      then scan_keywords lower text keywords (score + 1, found_keywords @ [keyword])
      else scan_keywords lower text keywords (score, found_keywords))"

text \<open>The outer loop over \<^verbatim>\<open>self.crisis_keywords.items()\<close>.\<close>

fun check_crisis_keywords_loop ::
  "(string \<Rightarrow> string) \<Rightarrow> string \<Rightarrow> (CrisisType \<times> string list) list \<Rightarrow>
   string channel_result \<Rightarrow> string channel_result" where
  "check_crisis_keywords_loop lower text [] results = results"
| "check_crisis_keywords_loop lower text ((crisis_type, keywords) # rest) results =
     (let (score, found_keywords) = scan_keywords lower text keywords (0, [])
      in if score > 0
         then check_crisis_keywords_loop lower text rest
                (results\<lparr>ch_types := ch_types results @ [type_value crisis_type],
                          ch_scores := (ch_scores results)(type_value crisis_type \<mapsto> real score),
                          ch_found := ch_found results @ found_keywords\<rparr>)
         else check_crisis_keywords_loop lower text rest results)"

definition check_crisis_keywords ::
  "(string \<Rightarrow> string) \<Rightarrow> CrisisDetectionSystem \<Rightarrow> string \<Rightarrow> string channel_result" where
  "check_crisis_keywords lower self text =
     check_crisis_keywords_loop lower text (crisis_keywords self)
       \<lparr>ch_types = [], ch_scores = Map.empty, ch_found = []\<rparr>"

text \<open>
  \<^verbatim>\<open>_check_crisis_patterns\<close>. Each pattern string goes to \<^verbatim>\<open>re.findall\<close> on
  every call; a rejected pattern raises there. The subscript in
  \<^verbatim>\<open>results["scores"][type_name] += ...\<close> reads the key the lines before have set.
  The table holds the weights as the decimals the source writes; \<open>py_float\<close> makes
  the double of a weight where it is multiplied.
\<close>

fun check_crisis_patterns_loop ::
  "re_engine \<Rightarrow> string \<Rightarrow> (string \<times> CrisisType \<times> real) list \<Rightarrow>
   re_match channel_result \<Rightarrow> error + re_match channel_result" where
  "check_crisis_patterns_loop engine text [] results = Inr results"
| "check_crisis_patterns_loop engine text ((pattern, crisis_type, weight) # rest) results =
     (case re_findall engine pattern text of
        Inl e \<Rightarrow> Inl e
      | Inr matches \<Rightarrow>
          if matches \<noteq> [] then
            (let type_name = type_value crisis_type;
                 results1 =
                   (if ch_scores results type_name = None
                    then results\<lparr>ch_scores := (ch_scores results)(type_name \<mapsto> 0),
                                  ch_types := ch_types results @ [type_name]\<rparr>
                    else results)
             in case ch_scores results1 type_name of
                  None \<Rightarrow> Inl KeyError
                | Some old \<Rightarrow>
                    check_crisis_patterns_loop engine text rest
                      (results1\<lparr>ch_scores :=
                                   (ch_scores results1)
                                     (type_name \<mapsto>
                                        float_add old
                                          (float_mul (real (length matches)) (py_float weight))),
                                 ch_found := ch_found results1 @ matches\<rparr>))
          else check_crisis_patterns_loop engine text rest results)"

definition check_crisis_patterns ::
  "re_engine \<Rightarrow> CrisisDetectionSystem \<Rightarrow> string \<Rightarrow> error + re_match channel_result" where
  "check_crisis_patterns engine self text =
     check_crisis_patterns_loop engine text (crisis_patterns self)
       \<lparr>ch_types = [], ch_scores = Map.empty, ch_found = []\<rparr>"

text \<open>\<^verbatim>\<open>_check_omani_expressions\<close>: as the keyword matcher, each hit adding the float 1.2.\<close>

fun scan_expressions ::
  "(string \<Rightarrow> string) \<Rightarrow> string \<Rightarrow> string list \<Rightarrow> real \<times> string list \<Rightarrow> real \<times> string list" where
  "scan_expressions lower text [] (score, found_expressions) = (score, found_expressions)"
| "scan_expressions lower text (expression # expressions) (score, found_expressions) =
     (if str_contains (lower expression) text
      then scan_expressions lower text expressions
             (float_add score (py_float (12 / 10)), found_expressions @ [expression])
      else scan_expressions lower text expressions (score, found_expressions))"

fun check_omani_expressions_loop ::
  "(string \<Rightarrow> string) \<Rightarrow> string \<Rightarrow> (CrisisType \<times> string list) list \<Rightarrow>
   string channel_result \<Rightarrow> string channel_result" where
  "check_omani_expressions_loop lower text [] results = results"
| "check_omani_expressions_loop lower text ((crisis_type, expressions) # rest) results =
     (let (score, found_expressions) = scan_expressions lower text expressions (0, [])
      in if score > 0
         then check_omani_expressions_loop lower text rest
                (results\<lparr>ch_types := ch_types results @ [type_value crisis_type],
                          ch_scores := (ch_scores results)(type_value crisis_type \<mapsto> score),
                          ch_found := ch_found results @ found_expressions\<rparr>)
         else check_omani_expressions_loop lower text rest results)"

definition check_omani_expressions ::
  "(string \<Rightarrow> string) \<Rightarrow> CrisisDetectionSystem \<Rightarrow> string \<Rightarrow> string channel_result" where
  "check_omani_expressions lower self text =
     check_omani_expressions_loop lower text (omani_crisis_expressions self)
       \<lparr>ch_types = [], ch_scores = Map.empty, ch_found = []\<rparr>"

subsection \<open>Score fusion\<close>

text \<open>\<^verbatim>\<open>d.get(key, 0)\<close> on a score dictionary.\<close>

definition get_score :: "(string \<rightharpoonup> real) \<Rightarrow> string \<Rightarrow> real" where
  "get_score d key = (case d key of None \<Rightarrow> 0 | Some v \<Rightarrow> v)"

text \<open>
  \<^verbatim>\<open>_calculate_combined_score\<close>. \<^verbatim>\<open>all_types\<close> is a Python set, filled with the
  types of the three results and then iterated; \<^verbatim>\<open>combined_scores\<close> keeps the order
  of that iteration, and \<^verbatim>\<open>sum\<close> adds its values from the left, starting at 0 (the
  plain summation of CPython up to version 3.11).
\<close>

definition calculate_combined_score ::
  "(string \<Rightarrow> nat) \<Rightarrow> string channel_result \<Rightarrow> re_match channel_result \<Rightarrow>
   string channel_result \<Rightarrow> combined_score" where
  "calculate_combined_score rank keyword_results pattern_results dialect_results =
     (let all_types =
            iterate_set rank
              (ch_types keyword_results @ ch_types pattern_results @ ch_types dialect_results);
          combined_scores =
            map (\<lambda>crisis_type.
                   (crisis_type,
                    float_add
                      (float_add
                         (float_add 0
                            (float_mul (get_score (ch_scores keyword_results) crisis_type)
                               (py_float (3 / 10))))
                         (float_mul (get_score (ch_scores pattern_results) crisis_type)
                            (py_float (5 / 10))))
                      (float_mul (get_score (ch_scores dialect_results) crisis_type)
                         (py_float (4 / 10)))))
                all_types
      in \<lparr>types = all_types,
          scores = combined_scores,
          total_score = foldl float_add 0 (map snd combined_scores),
          keyword_details = keyword_results,
          pattern_details = pattern_results,
          dialect_details = dialect_results\<rparr>)"

subsection \<open>Level classifier\<close>

text \<open>\<^verbatim>\<open>_determine_crisis_level\<close>: a chain of early returns.\<close>

definition determine_crisis_level :: "combined_score \<Rightarrow> CrisisLevel" where
  "determine_crisis_level combined =
     (let total = total_score combined;
          detected_types = types combined
      in if total \<ge> 3.0 then CRITICAL
         else if ''suicide'' \<in> set detected_types \<and> total \<ge> 2.0 then CRITICAL
         else if ''violence'' \<in> set detected_types \<and> total \<ge> 2.5 then CRITICAL
         else if total \<ge> 2.0 then HIGH
         else if (''suicide'' \<in> set detected_types \<or> ''self_harm'' \<in> set detected_types)
                 \<and> total \<ge> 1.0 then HIGH
         else if total \<ge> 1.0 then MEDIUM
         else if ''severe_depression'' \<in> set detected_types \<and> total \<ge> 0.5 then MEDIUM
         else LOW)"

text \<open>
  The rule list as the specification words it: pairs of a condition on
  (total score, detected types) and a level, in order; the first rule whose condition
  holds gives the level, and LOW is the default.
\<close>

type_synonym level_rule = "(real \<Rightarrow> string set \<Rightarrow> bool) \<times> CrisisLevel"

definition spec_level_rules :: "level_rule list" where
  "spec_level_rules =
     [(\<lambda>s T. s \<ge> 3, CRITICAL),
      (\<lambda>s T. ''suicide'' \<in> T \<and> s \<ge> 2, CRITICAL),
      (\<lambda>s T. ''violence'' \<in> T \<and> s \<ge> 5 / 2, CRITICAL),
      (\<lambda>s T. s \<ge> 2, HIGH),
      (\<lambda>s T. (''suicide'' \<in> T \<or> ''self_harm'' \<in> T) \<and> s \<ge> 1, HIGH),
      (\<lambda>s T. s \<ge> 1, MEDIUM),
      (\<lambda>s T. ''severe_depression'' \<in> T \<and> s \<ge> 1 / 2, MEDIUM)]"

fun first_matching_rule :: "level_rule list \<Rightarrow> real \<Rightarrow> string set \<Rightarrow> CrisisLevel" where
  "first_matching_rule [] s T = LOW"
| "first_matching_rule ((cond, lvl) # rules) s T =
     (if cond s T then lvl else first_matching_rule rules s T)"

subsection \<open>Session tracker\<close>

text \<open>
  \<^verbatim>\<open>all(recent_scores[i] < recent_scores[i+1] for i in range(len(recent_scores)-1))\<close>:
  every score is below its successor.
\<close>

fun all_increasing :: "real list \<Rightarrow> bool" where
  "all_increasing (x # y # rest) = (x < y \<and> all_increasing (y # rest))"
| "all_increasing _ = True"

text \<open>The slice \<^verbatim>\<open>xs[-n:]\<close> for a positive \<open>n\<close>: the last \<open>n\<close> elements, or all of them.\<close>

definition last_n :: "nat \<Rightarrow> 'a list \<Rightarrow> 'a list" where
  "last_n n xs = drop (length xs - n) xs"

text \<open>
  \<^verbatim>\<open>_analyze_session_patterns\<close>: returns the risk and the engine with the session map
  updated.
\<close>

definition analyze_session_patterns ::
  "CrisisDetectionSystem \<Rightarrow> string \<Rightarrow> combined_score \<Rightarrow> nat \<Rightarrow> real \<times> CrisisDetectionSystem" where
  "analyze_session_patterns self session_id current_score now =
     (let stored = (case session_history self session_id of None \<Rightarrow> [] | Some h \<Rightarrow> h);
          appended = stored @ [\<lparr>sr_timestamp = now,
                                sr_score = total_score current_score,
                                sr_types = types current_score\<rparr>];
          history = last_n 10 appended;
          self' = self\<lparr>session_history := (session_history self)(session_id \<mapsto> history)\<rparr>;
          crisis_count = length (filter (\<lambda>entry. sr_score entry > 1.0) history)
      in if length history \<ge> 3 \<and> all_increasing (map sr_score (last_n 3 history))
         then (0.5, self')
         else if crisis_count \<ge> 2 then (0.3, self')
         else (0.0, self'))"

subsection \<open>Resource resolver\<close>

text \<open>
  \<^verbatim>\<open>_get_relevant_resources\<close>. \<^verbatim>\<open>resources.update(d)\<close> is \<open>resources ++ d\<close>;
  the subscript \<^verbatim>\<open>["emergency"]["police"]\<close> raises when the group has no such key.
\<close>

definition get_relevant_resources ::
  "CrisisDetectionSystem \<Rightarrow> string list \<Rightarrow> error + (string \<rightharpoonup> string)" where
  "get_relevant_resources self crisis_types =
     (let directory = emergency_resources self;
          resources = Map.empty ++ emergency directory;
          resources =
            (if list_ex (\<lambda>t. t \<in> set crisis_types) [''suicide'', ''self_harm'', ''severe_depression'']
             then resources ++ mental_health directory ++ hospitals directory
             else resources)
      in if ''violence'' \<in> set crisis_types
         then (case emergency directory ''police'' of
                 None \<Rightarrow> Inl KeyError
               | Some police \<Rightarrow> Inr (resources(''police'' \<mapsto> police) ++ support directory))
         else Inr (resources ++ support directory))"

subsection \<open>Assessment\<close>

text \<open>The dictionary \<^verbatim>\<open>assess_crisis_level\<close> returns; the last field is its key
  \<^verbatim>\<open>"emergency_resources"\<close>.\<close>

record assessment =
  crisis_level :: string
  crisis_score :: real
  detected_types :: "string list"
  requires_escalation :: bool
  requires_immediate_intervention :: bool
  session_pattern_risk :: real
  relevant_resources :: "string \<rightharpoonup> string"

text \<open>
  \<^verbatim>\<open>assess_crisis_level\<close>. The session id is optional (\<^verbatim>\<open>None\<close> by default) and
  is tested for truth, so the empty string counts as absent. The result is the
  assessment or the exception raised, together with the engine as the call leaves it:
  an exception after the session tracker has run keeps the tracker's update. Logging is
  left out.
\<close>

definition assess_crisis_level ::
  "(string \<Rightarrow> string) \<Rightarrow> re_engine \<Rightarrow> (string \<Rightarrow> nat) \<Rightarrow> CrisisDetectionSystem \<Rightarrow> string \<Rightarrow>
   string option \<Rightarrow> nat \<Rightarrow> (error + assessment) \<times> CrisisDetectionSystem" where
  "assess_crisis_level lower engine rank self text session_id now =
     (let text_lower = lower text;
          keyword_results = check_crisis_keywords lower self text_lower
      in case check_crisis_patterns engine self text_lower of
           Inl e \<Rightarrow> (Inl e, self)
         | Inr pattern_results \<Rightarrow>
             (let dialect_results = check_omani_expressions lower self text_lower;
                  combined = calculate_combined_score rank keyword_results pattern_results
                               dialect_results;
                  level = determine_crisis_level combined;
                  (risk, self') =
                    (case session_id of
                       None \<Rightarrow> (0, self)
                     | Some sid \<Rightarrow>
                         if sid \<noteq> [] then analyze_session_patterns self sid combined now
                         else (0, self))
              in case get_relevant_resources self' (types combined) of
                   Inl e \<Rightarrow> (Inl e, self')
                 | Inr resources \<Rightarrow>
                     (Inr \<lparr>crisis_level = level_value level,
                           crisis_score = total_score combined,
                           detected_types = types combined,
                           requires_escalation = (level = HIGH \<or> level = CRITICAL),
                           requires_immediate_intervention = (level = CRITICAL),
                           session_pattern_risk = risk,
                           relevant_resources = resources\<rparr>,
                      self')))"

text \<open>
  A conversation: the calls of \<^verbatim>\<open>assess_crisis_level\<close> on one engine, each with its
  text, its session id and the clock reading of that moment.
\<close>

fun run_turns ::
  "(string \<Rightarrow> string) \<Rightarrow> re_engine \<Rightarrow> (string \<Rightarrow> nat) \<Rightarrow> CrisisDetectionSystem \<Rightarrow>
   (string \<times> string option \<times> nat) list \<Rightarrow> CrisisDetectionSystem" where
  "run_turns lower engine rank self [] = self"
| "run_turns lower engine rank self ((text, session_id, now) # turns) =
     run_turns lower engine rank (snd (assess_crisis_level lower engine rank self text session_id now)) turns"

section \<open>Specification-side notions\<close>

text \<open>
  The session tracker's rule as the specification words it, on the history retained
  after the turn: 0.5 when there are at least three records and the scores of the last
  three are strictly increasing, else 0.3 when at least two retained records score above
  1.0, else 0.
\<close>

definition spec_session_risk :: "session_record list \<Rightarrow> real" where
  "spec_session_risk h =
     (let n = length h in
      if 3 \<le> n \<and> sr_score (h ! (n - 3)) < sr_score (h ! (n - 2))
               \<and> sr_score (h ! (n - 2)) < sr_score (h ! (n - 1)) then 1 / 2
      else if 2 \<le> length (filter (\<lambda>r. 1 < sr_score r) h) then 3 / 10
      else 0)"

text \<open>
  The history a session holds after a tracked turn: the stored records (none for a new
  session id), the record of the turn appended, cut to the most recent 10.
\<close>

definition history_after ::
  "CrisisDetectionSystem \<Rightarrow> string \<Rightarrow> combined_score \<Rightarrow> nat \<Rightarrow> session_record list" where
  "history_after self session_id current_score now =
     last_n 10 ((case session_history self session_id of None \<Rightarrow> [] | Some h \<Rightarrow> h)
                @ [\<lparr>sr_timestamp = now, sr_score = total_score current_score,
                    sr_types = types current_score\<rparr>])"

text \<open>
  The keywords of a type: the entry of the lexicon table under that type; a type without
  an entry (as \<open>EATING_DISORDER\<close>) has none.
\<close>

definition keywords_of :: "CrisisDetectionSystem \<Rightarrow> CrisisType \<Rightarrow> string list" where
  "keywords_of self crisis_type =
     (case map_of (crisis_keywords self) crisis_type of None \<Rightarrow> [] | Some keywords \<Rightarrow> keywords)"

text \<open>
  The keywords of a list that occur in a text, each listed once however often it occurs:
  what the lexicon matcher counts.
\<close>

definition matching_keywords :: "(string \<Rightarrow> string) \<Rightarrow> string list \<Rightarrow> string \<Rightarrow> string list" where
  "matching_keywords lower keywords text =
     filter (\<lambda>keyword. str_contains (lower keyword) text) keywords"

text \<open>
  The other reading of "count of occurrences of the type's keywords": every place of the
  text at which a keyword starts counts, so a keyword that occurs twice counts twice.
\<close>

fun count_occurrences :: "string \<Rightarrow> string \<Rightarrow> nat" where
  "count_occurrences k [] = (if k = [] then 1 else 0)"
| "count_occurrences k (c # cs) = (if prefix k (c # cs) then 1 else 0) + count_occurrences k cs"

definition spec_lexicon_score :: "(string \<Rightarrow> string) \<Rightarrow> string list \<Rightarrow> string \<Rightarrow> nat" where
  "spec_lexicon_score lower keywords text =
     sum_list (map (\<lambda>keyword. count_occurrences (lower keyword) text) keywords)"

text \<open>
  The engine \<^verbatim>\<open>__init__\<close> yields when \<^verbatim>\<open>_build_crisis_patterns\<close> returns another
  table (a subclass may override the method): the table is stored as it is returned,
  nothing is compiled.
\<close>

definition init_with :: "(string \<times> CrisisType \<times> real) list \<Rightarrow> CrisisDetectionSystem" where
  "init_with patterns = init\<lparr>crisis_patterns := patterns\<rparr>"




text \<open>No session holds more than 10 records.\<close>

definition history_bounded :: "CrisisDetectionSystem \<Rightarrow> bool" where
  "history_bounded self = (\<forall>sid h. session_history self sid = Some h \<longrightarrow> length h \<le> 10)"

subsection \<open>A runtime for the examples\<close>

text \<open>
  The theorems below hold for every lowercasing function and every regex engine. The
  closed examples need one of each. They use texts and tables without cased letters, on
  which \<^verbatim>\<open>str.lower\<close> changes nothing, so the lowercasing is the identity; and an
  engine that rejects the pattern \<^verbatim>\<open>(\<close> (an unterminated group, which
  \<^verbatim>\<open>re\<close> rejects too) and finds no match of any other pattern, which is what
  \<^verbatim>\<open>re\<close> finds for the nine patterns of the table in the texts used.
\<close>

definition example_engine :: re_engine where
  "example_engine pattern = (if pattern = ''('' then None else Some (\<lambda>text. []))"

text \<open>
  A text for the examples: the keyword of the suicide list that reads "suicide" (six
  Arabic letters), twice, with a space between. No other keyword of any list, no dialect
  expression and no pattern of the table occurs in it.
\<close>

definition repeated_keyword_text :: string where
  "repeated_keyword_text =
     [CHR 0xD8, CHR 0xA7, CHR 0xD9, CHR 0x86, CHR 0xD8, CHR 0xAA, CHR 0xD8, CHR 0xAD,
      CHR 0xD8, CHR 0xA7, CHR 0xD8, CHR 0xB1, CHR 0x20,
      CHR 0xD8, CHR 0xA7, CHR 0xD9, CHR 0x86, CHR 0xD8, CHR 0xAA, CHR 0xD8, CHR 0xAD,
      CHR 0xD8, CHR 0xA7, CHR 0xD8, CHR 0xB1]"


text \<open>
  Two iteration orders of the set of the types \<^verbatim>\<open>self_harm\<close>, \<^verbatim>\<open>psychosis\<close> and
  \<^verbatim>\<open>substance_abuse\<close>: the order CPython 3.11 shows with hash seed 5 (self-harm,
  psychosis, substance abuse) and the one it shows with hash seed 0 (psychosis,
  substance abuse, self-harm).
\<close>

definition order_seed_5 :: "string \<Rightarrow> nat" where
  "order_seed_5 t = (if t = ''self_harm'' then 0 else if t = ''psychosis'' then 1 else 2)"


section \<open>Properties\<close>

text \<open>
  C1. For every fused result, the level the classifier returns is the level of the first
  matching rule of the ordered list (score at least 3: critical; suicide and score at
  least 2: critical; violence and score at least 2.5: critical; score at least 2: high;
  suicide or self-harm and score at least 1: high; score at least 1: medium; severe
  depression and score at least 0.5: medium; otherwise low), every boundary inclusive.
\<close>

theorem determine_crisis_level_first_match:
  "determine_crisis_level combined =
     first_matching_rule spec_level_rules (total_score combined) (set (types combined))"
  by (simp add: determine_crisis_level_def spec_level_rules_def Let_def)


subsection \<open>Session tracker: auxiliary facts\<close>

lemma drop_step:
  assumes "i < length xs" and "Suc i = j"
  shows "drop i xs = xs ! i # drop j xs"
  using assms Cons_nth_drop_Suc [of i xs] by auto

lemma last_n_three:
  assumes "3 \<le> length xs"
  shows "last_n 3 xs = [xs ! (length xs - 3), xs ! (length xs - 2), xs ! (length xs - 1)]"
proof -
  let ?n = "length xs"
  have c: "drop (?n - 1) xs = xs ! (?n - 1) # drop ?n xs"
    by (rule drop_step) (use assms in simp_all)
  have b: "drop (?n - 2) xs = xs ! (?n - 2) # drop (?n - 1) xs"
    by (rule drop_step) (use assms in simp_all)
  have a: "drop (?n - 3) xs = xs ! (?n - 3) # drop (?n - 2) xs"
    by (rule drop_step) (use assms in simp_all)
  show ?thesis
    unfolding last_n_def by (simp only: a b c drop_all order_refl)
qed

lemma length_last_n: "length (last_n n xs) = min n (length xs)"
  by (simp add: last_n_def)

lemma analyze_history:
  "session_history (snd (analyze_session_patterns self sid cs now)) sid
     = Some (history_after self sid cs now)"
  by (simp add: analyze_session_patterns_def history_after_def Let_def)

lemma analyze_history_other:
  "sid' \<noteq> sid \<Longrightarrow>
   session_history (snd (analyze_session_patterns self sid cs now)) sid' = session_history self sid'"
  by (simp add: analyze_session_patterns_def Let_def)

lemma analyze_risk:
  "fst (analyze_session_patterns self sid cs now) = spec_session_risk (history_after self sid cs now)"
proof -
  let ?h = "history_after self sid cs now"
  show ?thesis
  proof (cases "3 \<le> length ?h")
    case True
    then show ?thesis
      using last_n_three [OF True]
      by (simp add: analyze_session_patterns_def spec_session_risk_def Let_def
          history_after_def [symmetric])
  next
    case False
    then show ?thesis
      by (simp add: analyze_session_patterns_def spec_session_risk_def Let_def
          history_after_def [symmetric])
  qed
qed

lemma length_history_after: "length (history_after self sid cs now) \<le> 10"
  by (simp add: history_after_def length_last_n)

lemma snd_assess:
  "snd (assess_crisis_level lower engine rank self text session_id now) =
     (case check_crisis_patterns engine self (lower text) of
        Inl e \<Rightarrow> self
      | Inr pattern_results \<Rightarrow>
          (case session_id of
             None \<Rightarrow> self
           | Some sid \<Rightarrow>
               if sid \<noteq> []
               then snd (analyze_session_patterns self sid
                      (calculate_combined_score rank
                         (check_crisis_keywords lower self (lower text)) pattern_results
                         (check_omani_expressions lower self (lower text))) now)
               else self))"
  by (simp add: assess_crisis_level_def Let_def split: sum.splits option.splits prod.splits)

lemma analyze_bounded:
  assumes "history_bounded self"
  shows "history_bounded (snd (analyze_session_patterns self sid cs now))"
  unfolding history_bounded_def
proof (intro allI impI)
  fix k h
  assume h: "session_history (snd (analyze_session_patterns self sid cs now)) k = Some h"
  show "length h \<le> 10"
  proof (cases "k = sid")
    case True
    with h length_history_after [of self sid cs now] show ?thesis
      by (simp add: analyze_history)
  next
    case False
    with h assms show ?thesis by (simp add: analyze_history_other history_bounded_def)
  qed
qed

lemma assess_bounded:
  assumes "history_bounded self"
  shows "history_bounded (snd (assess_crisis_level lower engine rank self text session_id now))"
  using assms by (simp add: snd_assess analyze_bounded split: sum.splits option.splits)

lemma run_turns_bounded:
  "history_bounded self \<Longrightarrow> history_bounded (run_turns lower engine rank self turns)"
  by (induction turns arbitrary: self) (auto simp: assess_bounded)

lemma init_bounded: "history_bounded init"
  by (simp add: history_bounded_def init_def)

lemma assess_no_session:
  "snd (assess_crisis_level lower engine rank self text None now) = self"
  by (simp add: snd_assess split: sum.splits)

lemma assess_empty_session:
  "assess_crisis_level lower engine rank self text (Some []) now
     = assess_crisis_level lower engine rank self text None now"
  by (simp add: assess_crisis_level_def Let_def split: sum.splits)

lemma assess_no_session_risk:
  "fst (assess_crisis_level lower engine rank self text None now) = Inr a \<Longrightarrow> session_pattern_risk a = 0"
  by (auto simp: assess_crisis_level_def Let_def split: sum.splits)


lemma channels_ignore_history:
  "check_crisis_keywords lower (self\<lparr>session_history := h\<rparr>) t = check_crisis_keywords lower self t"
  "check_crisis_patterns engine (self\<lparr>session_history := h\<rparr>) t = check_crisis_patterns engine self t"
  "check_omani_expressions lower (self\<lparr>session_history := h\<rparr>) t = check_omani_expressions lower self t"
  "get_relevant_resources (self\<lparr>session_history := h\<rparr>) ts = get_relevant_resources self ts"
  by (simp_all add: check_crisis_keywords_def check_crisis_patterns_def
      check_omani_expressions_def get_relevant_resources_def)


subsection \<open>The examples evaluated\<close>

lemma ex_kw: "check_crisis_keywords (\<lambda>s. s) init [] = \<lparr>ch_types = [], ch_scores = Map.empty, ch_found = []\<rparr>"
  by (simp add: check_crisis_keywords_def init_def build_crisis_keywords_def)

lemma ex_dia: "check_omani_expressions (\<lambda>s. s) init [] = \<lparr>ch_types = [], ch_scores = Map.empty, ch_found = []\<rparr>"
  by (simp add: check_omani_expressions_def init_def build_omani_crisis_expressions_def)

lemma ex_pat: "check_crisis_patterns example_engine init [] = Inr \<lparr>ch_types = [], ch_scores = Map.empty, ch_found = []\<rparr>"
  by (simp add: check_crisis_patterns_def init_def build_crisis_patterns_def example_engine_def re_findall_def)

subsection \<open>Session tracker and statelessness: the claims\<close>

lemma ex_combined:
  "calculate_combined_score rank \<lparr>ch_types = [], ch_scores = Map.empty, ch_found = []\<rparr>
     \<lparr>ch_types = [], ch_scores = Map.empty, ch_found = []\<rparr>
     \<lparr>ch_types = [], ch_scores = Map.empty, ch_found = []\<rparr>
   = \<lparr>types = [], scores = [], total_score = 0,
      keyword_details = \<lparr>ch_types = [], ch_scores = Map.empty, ch_found = []\<rparr>,
      pattern_details = \<lparr>ch_types = [], ch_scores = Map.empty, ch_found = []\<rparr>,
      dialect_details = \<lparr>ch_types = [], ch_scores = Map.empty, ch_found = []\<rparr>\<rparr>"
  by (simp add: calculate_combined_score_def iterate_set_def)

lemma ex_resources:
  "get_relevant_resources init []
     = Inr (emergency build_emergency_resources ++ support build_emergency_resources)"
  by (simp add: get_relevant_resources_def init_def)

lemma ex_assess:
  "assess_crisis_level (\<lambda>s. s) example_engine order_seed_5 (init\<lparr>session_history := m\<rparr>) [] None now
     = (Inr \<lparr>crisis_level = ''low'', crisis_score = 0, detected_types = [],
             requires_escalation = False, requires_immediate_intervention = False,
             session_pattern_risk = 0,
             relevant_resources =
               emergency build_emergency_resources ++ support build_emergency_resources\<rparr>,
        init\<lparr>session_history := m\<rparr>)"
  by (simp add: assess_crisis_level_def channels_ignore_history ex_kw ex_pat ex_dia ex_combined
      ex_resources determine_crisis_level_def Let_def)

lemma ex_turn:
  "snd (assess_crisis_level (\<lambda>s. s) example_engine order_seed_5 (init\<lparr>session_history := m\<rparr>) []
          (Some ''s1'') now)
     = init\<lparr>session_history :=
          m(''s1'' \<mapsto> last_n 10 ((case m ''s1'' of None \<Rightarrow> [] | Some h \<Rightarrow> h)
                @ [\<lparr>sr_timestamp = now, sr_score = 0, sr_types = []\<rparr>]))\<rparr>"
  by (simp add: snd_assess channels_ignore_history ex_kw ex_pat ex_dia ex_combined
      analyze_session_patterns_def Let_def)

lemma init_as_update: "init = init\<lparr>session_history := Map.empty\<rparr>"
  by (simp add: init_def)

lemma ex_eleven_turns:
  "session_history
     (run_turns (\<lambda>s. s) example_engine order_seed_5 init
        [([], Some ''s1'', 1), ([], Some ''s1'', 2), ([], Some ''s1'', 3), ([], Some ''s1'', 4),
         ([], Some ''s1'', 5), ([], Some ''s1'', 6), ([], Some ''s1'', 7), ([], Some ''s1'', 8),
         ([], Some ''s1'', 9), ([], Some ''s1'', 10), ([], Some ''s1'', 11)]) ''s1''
   = Some [\<lparr>sr_timestamp = 2, sr_score = 0, sr_types = []\<rparr>,
           \<lparr>sr_timestamp = 3, sr_score = 0, sr_types = []\<rparr>,
           \<lparr>sr_timestamp = 4, sr_score = 0, sr_types = []\<rparr>,
           \<lparr>sr_timestamp = 5, sr_score = 0, sr_types = []\<rparr>,
           \<lparr>sr_timestamp = 6, sr_score = 0, sr_types = []\<rparr>,
           \<lparr>sr_timestamp = 7, sr_score = 0, sr_types = []\<rparr>,
           \<lparr>sr_timestamp = 8, sr_score = 0, sr_types = []\<rparr>,
           \<lparr>sr_timestamp = 9, sr_score = 0, sr_types = []\<rparr>,
           \<lparr>sr_timestamp = 10, sr_score = 0, sr_types = []\<rparr>,
           \<lparr>sr_timestamp = 11, sr_score = 0, sr_types = []\<rparr>]"
  by (subst init_as_update) (simp add: ex_turn last_n_def)

lemma session_history_init: "session_history init = Map.empty"
  by (simp add: init_def)

lemma ex_assess_session:
  "assess_crisis_level (\<lambda>s. s) example_engine order_seed_5 init [] (Some ''s1'') 1
     = (Inr \<lparr>crisis_level = ''low'', crisis_score = 0, detected_types = [],
             requires_escalation = False, requires_immediate_intervention = False,
             session_pattern_risk = 0,
             relevant_resources =
               emergency build_emergency_resources ++ support build_emergency_resources\<rparr>,
        init\<lparr>session_history :=
               [''s1'' \<mapsto> [\<lparr>sr_timestamp = 1, sr_score = 0, sr_types = []\<rparr>]]\<rparr>)"
  by (simp add: assess_crisis_level_def channels_ignore_history ex_kw ex_pat ex_dia ex_combined
      ex_resources determine_crisis_level_def Let_def analyze_session_patterns_def last_n_def
      session_history_init)

lemma assess_tracked:
  assumes "sid \<noteq> []"
    and "assess_crisis_level lower engine rank self text (Some sid) now = (Inr a, self')"
  shows "session_history self' sid
           = Some (last_n 10 ((case session_history self sid of None \<Rightarrow> [] | Some h \<Rightarrow> h)
                     @ [\<lparr>sr_timestamp = now, sr_score = crisis_score a,
                         sr_types = detected_types a\<rparr>]))
         \<and> session_pattern_risk a
           = spec_session_risk (last_n 10 ((case session_history self sid of None \<Rightarrow> [] | Some h \<Rightarrow> h)
                     @ [\<lparr>sr_timestamp = now, sr_score = crisis_score a,
                         sr_types = detected_types a\<rparr>]))"
proof -
  obtain pr where pr: "check_crisis_patterns engine self (lower text) = Inr pr"
    using assms(2) by (cases "check_crisis_patterns engine self (lower text)")
      (auto simp: assess_crisis_level_def Let_def)
  define cs where "cs = calculate_combined_score rank (check_crisis_keywords lower self (lower text)) pr
                          (check_omani_expressions lower self (lower text))"
  obtain res where res: "get_relevant_resources (snd (analyze_session_patterns self sid cs now)) (types cs) = Inr res"
    and a: "a = \<lparr>crisis_level = level_value (determine_crisis_level cs),
                 crisis_score = total_score cs, detected_types = types cs,
                 requires_escalation = (determine_crisis_level cs = HIGH \<or> determine_crisis_level cs = CRITICAL),
                 requires_immediate_intervention = (determine_crisis_level cs = CRITICAL),
                 session_pattern_risk = fst (analyze_session_patterns self sid cs now),
                 relevant_resources = res\<rparr>"
    and s: "self' = snd (analyze_session_patterns self sid cs now)"
    using assms pr
    by (auto simp: assess_crisis_level_def Let_def cs_def split: sum.splits prod.splits)
  have h: "history_after self sid cs now
             = last_n 10 ((case session_history self sid of None \<Rightarrow> [] | Some h \<Rightarrow> h)
                     @ [\<lparr>sr_timestamp = now, sr_score = crisis_score a,
                         sr_types = detected_types a\<rparr>])"
    by (simp add: history_after_def a)
  show ?thesis
    using analyze_history [of self sid cs now] analyze_risk [of self sid cs now]
    by (simp add: s a history_after_def)
qed

text \<open>
  C3. A tracked turn leaves the session with its history extended by the record of the
  turn and cut to the most recent 10, and the risk it returns is the specification's
  rule on that history: 0.5 if it has at least three records and the scores of the last
  three are strictly increasing, otherwise 0.3 if at least two retained records score
  above 1.0, otherwise 0. The risk is 0.5 exactly when the last three scores are strictly
  increasing, so an equal or decreasing step never gives 0.5. The third part reads the
  same off a call of the assessment with a non-empty session id.
\<close>

theorem session_pattern_risk_rule:
  "fst (analyze_session_patterns self sid cs now) = spec_session_risk (history_after self sid cs now)
   \<and> (fst (analyze_session_patterns self sid cs now) = 1 / 2 \<longleftrightarrow>
        3 \<le> length (history_after self sid cs now)
        \<and> sr_score (history_after self sid cs now ! (length (history_after self sid cs now) - 3))
            < sr_score (history_after self sid cs now ! (length (history_after self sid cs now) - 2))
        \<and> sr_score (history_after self sid cs now ! (length (history_after self sid cs now) - 2))
            < sr_score (history_after self sid cs now ! (length (history_after self sid cs now) - 1)))
   \<and> (sid' \<noteq> [] \<and> assess_crisis_level lower engine rank self' text (Some sid') now' = (Inr a, self'')
        \<longrightarrow> session_history self'' sid'
              = Some (last_n 10 ((case session_history self' sid' of None \<Rightarrow> [] | Some h \<Rightarrow> h)
                        @ [\<lparr>sr_timestamp = now', sr_score = crisis_score a,
                            sr_types = detected_types a\<rparr>]))
            \<and> session_pattern_risk a
              = spec_session_risk
                  (last_n 10 ((case session_history self' sid' of None \<Rightarrow> [] | Some h \<Rightarrow> h)
                        @ [\<lparr>sr_timestamp = now', sr_score = crisis_score a,
                            sr_types = detected_types a\<rparr>])))"
proof (intro conjI impI)
  show r: "fst (analyze_session_patterns self sid cs now)
             = spec_session_risk (history_after self sid cs now)"
    by (rule analyze_risk)
  show "fst (analyze_session_patterns self sid cs now) = 1 / 2 \<longleftrightarrow>
        3 \<le> length (history_after self sid cs now)
        \<and> sr_score (history_after self sid cs now ! (length (history_after self sid cs now) - 3))
            < sr_score (history_after self sid cs now ! (length (history_after self sid cs now) - 2))
        \<and> sr_score (history_after self sid cs now ! (length (history_after self sid cs now) - 2))
            < sr_score (history_after self sid cs now ! (length (history_after self sid cs now) - 1))"
    unfolding r by (simp add: spec_session_risk_def Let_def)
next
  assume "sid' \<noteq> [] \<and> assess_crisis_level lower engine rank self' text (Some sid') now' = (Inr a, self'')"
  then have *: "sid' \<noteq> []" "assess_crisis_level lower engine rank self' text (Some sid') now' = (Inr a, self'')"
    by simp_all
  show "session_history self'' sid'
              = Some (last_n 10 ((case session_history self' sid' of None \<Rightarrow> [] | Some h \<Rightarrow> h)
                        @ [\<lparr>sr_timestamp = now', sr_score = crisis_score a,
                            sr_types = detected_types a\<rparr>]))"
    using assess_tracked [OF *] by simp
  show "session_pattern_risk a
              = spec_session_risk
                  (last_n 10 ((case session_history self' sid' of None \<Rightarrow> [] | Some h \<Rightarrow> h)
                        @ [\<lparr>sr_timestamp = now', sr_score = crisis_score a,
                            sr_types = detected_types a\<rparr>]))"
    using assess_tracked [OF *] by simp
qed

theorem session_pattern_risk_rule_witness:
  "fst (analyze_session_patterns
          (init\<lparr>session_history :=
                  [''s1'' \<mapsto> [\<lparr>sr_timestamp = 1, sr_score = 2 / 10, sr_types = []\<rparr>,
                                 \<lparr>sr_timestamp = 2, sr_score = 6 / 10, sr_types = []\<rparr>]]\<rparr>)
          ''s1''
          \<lparr>types = [], scores = [], total_score = 11 / 10,
            keyword_details = \<lparr>ch_types = [], ch_scores = Map.empty, ch_found = []\<rparr>,
            pattern_details = \<lparr>ch_types = [], ch_scores = Map.empty, ch_found = []\<rparr>,
            dialect_details = \<lparr>ch_types = [], ch_scores = Map.empty, ch_found = []\<rparr>\<rparr>
          3) = 1 / 2
   \<and> ''s1'' \<noteq> []
   \<and> fst (assess_crisis_level (\<lambda>s. s) example_engine order_seed_5 init [] (Some ''s1'') 1)
       = Inr \<lparr>crisis_level = ''low'', crisis_score = 0, detected_types = [],
              requires_escalation = False, requires_immediate_intervention = False,
              session_pattern_risk = 0,
              relevant_resources =
                emergency build_emergency_resources ++ support build_emergency_resources\<rparr>
   \<and> session_history (snd (assess_crisis_level (\<lambda>s. s) example_engine order_seed_5 init [] (Some ''s1'') 1)) ''s1''
       = Some [\<lparr>sr_timestamp = 1, sr_score = 0, sr_types = []\<rparr>]
   \<and> spec_session_risk [\<lparr>sr_timestamp = 1, sr_score = 0, sr_types = []\<rparr>] = 0"
proof -
  let ?self = "init\<lparr>session_history :=
                  [''s1'' \<mapsto> [\<lparr>sr_timestamp = 1, sr_score = 2 / 10, sr_types = []\<rparr>,
                                 \<lparr>sr_timestamp = 2, sr_score = 6 / 10, sr_types = []\<rparr>]]\<rparr>"
  let ?cs = "\<lparr>types = [], scores = [], total_score = 11 / 10,
            keyword_details = \<lparr>ch_types = [], ch_scores = Map.empty, ch_found = []\<rparr>,
            pattern_details = \<lparr>ch_types = [], ch_scores = Map.empty, ch_found = []\<rparr>,
            dialect_details = \<lparr>ch_types = [], ch_scores = Map.empty, ch_found = []\<rparr>\<rparr>"
  let ?a = "\<lparr>crisis_level = ''low'', crisis_score = 0, detected_types = [],
              requires_escalation = False, requires_immediate_intervention = False,
              session_pattern_risk = 0,
              relevant_resources =
                emergency build_emergency_resources ++ support build_emergency_resources\<rparr>"
  let ?s = "init\<lparr>session_history :=
               [''s1'' \<mapsto> [\<lparr>sr_timestamp = 1, sr_score = 0, sr_types = []\<rparr>]]\<rparr>"
  have h: "history_after ?self ''s1'' ?cs 3
             = [\<lparr>sr_timestamp = 1, sr_score = 2 / 10, sr_types = []\<rparr>,
                \<lparr>sr_timestamp = 2, sr_score = 6 / 10, sr_types = []\<rparr>,
                \<lparr>sr_timestamp = 3, sr_score = 11 / 10, sr_types = []\<rparr>]"
    by (simp add: history_after_def last_n_def)
  have "fst (analyze_session_patterns ?self ''s1'' ?cs 3) = spec_session_risk (history_after ?self ''s1'' ?cs 3)"
    using session_pattern_risk_rule [of ?self "''s1''" ?cs 3] by blast
  also have "\<dots> = 1 / 2"
    unfolding h by (simp add: spec_session_risk_def Let_def eval_nat_numeral)
  finally have one: "fst (analyze_session_patterns ?self ''s1'' ?cs 3) = 1 / 2" .
  have ne: "''s1'' \<noteq> []" by simp
  have run: "assess_crisis_level (\<lambda>s. s) example_engine order_seed_5 init [] (Some ''s1'') 1 = (Inr ?a, ?s)"
    by (rule ex_assess_session)
  have two: "session_history ?s ''s1''
       = Some (last_n 10 ((case session_history init ''s1'' of None \<Rightarrow> [] | Some h \<Rightarrow> h)
                        @ [\<lparr>sr_timestamp = 1, sr_score = crisis_score ?a,
                            sr_types = detected_types ?a\<rparr>]))
     \<and> session_pattern_risk ?a
       = spec_session_risk (last_n 10 ((case session_history init ''s1'' of None \<Rightarrow> [] | Some h \<Rightarrow> h)
                        @ [\<lparr>sr_timestamp = 1, sr_score = crisis_score ?a,
                            sr_types = detected_types ?a\<rparr>]))"
    using session_pattern_risk_rule
        [of _ _ _ _ "''s1''" "\<lambda>s. s" example_engine order_seed_5 init "[]" 1 ?a ?s] ne run
    by blast
  then have three: "spec_session_risk [\<lparr>sr_timestamp = 1, sr_score = 0, sr_types = []\<rparr>] = 0"
    by (simp add: session_history_init last_n_def)
  show ?thesis
    using one ne run three by simp
qed

text \<open>
  C6. Whatever calls are made on a freshly constructed engine, no session's stored
  history has more than 10 records; the tracker stores, for the session of the turn, the
  old records with the new one appended, cut to the last 10.
\<close>

theorem session_history_at_most_ten:
  "(\<forall>sid h. session_history (run_turns lower engine rank init turns) sid = Some h \<longrightarrow> length h \<le> 10)
   \<and> session_history (snd (analyze_session_patterns self session_id current_score now)) session_id
       = Some (last_n 10 ((case session_history self session_id of None \<Rightarrow> [] | Some h \<Rightarrow> h)
                 @ [\<lparr>sr_timestamp = now, sr_score = total_score current_score,
                     sr_types = types current_score\<rparr>]))"
proof
  have "history_bounded (run_turns lower engine rank init turns)"
    using init_bounded by (rule run_turns_bounded)
  then show "\<forall>sid h. session_history (run_turns lower engine rank init turns) sid = Some h \<longrightarrow> length h \<le> 10"
    by (simp add: history_bounded_def)
  show "session_history (snd (analyze_session_patterns self session_id current_score now)) session_id
       = Some (last_n 10 ((case session_history self session_id of None \<Rightarrow> [] | Some h \<Rightarrow> h)
                 @ [\<lparr>sr_timestamp = now, sr_score = total_score current_score,
                     sr_types = types current_score\<rparr>]))"
    using analyze_history [of self session_id current_score now] by (simp add: history_after_def)
qed

theorem session_history_at_most_ten_witness:
  "session_history
     (run_turns (\<lambda>s. s) example_engine order_seed_5 init
        [([], Some ''s1'', 1), ([], Some ''s1'', 2), ([], Some ''s1'', 3), ([], Some ''s1'', 4),
         ([], Some ''s1'', 5), ([], Some ''s1'', 6), ([], Some ''s1'', 7), ([], Some ''s1'', 8),
         ([], Some ''s1'', 9), ([], Some ''s1'', 10), ([], Some ''s1'', 11)]) ''s1''
   = Some [\<lparr>sr_timestamp = 2, sr_score = 0, sr_types = []\<rparr>,
           \<lparr>sr_timestamp = 3, sr_score = 0, sr_types = []\<rparr>,
           \<lparr>sr_timestamp = 4, sr_score = 0, sr_types = []\<rparr>,
           \<lparr>sr_timestamp = 5, sr_score = 0, sr_types = []\<rparr>,
           \<lparr>sr_timestamp = 6, sr_score = 0, sr_types = []\<rparr>,
           \<lparr>sr_timestamp = 7, sr_score = 0, sr_types = []\<rparr>,
           \<lparr>sr_timestamp = 8, sr_score = 0, sr_types = []\<rparr>,
           \<lparr>sr_timestamp = 9, sr_score = 0, sr_types = []\<rparr>,
           \<lparr>sr_timestamp = 10, sr_score = 0, sr_types = []\<rparr>,
           \<lparr>sr_timestamp = 11, sr_score = 0, sr_types = []\<rparr>]
   \<and> length [\<lparr>sr_timestamp = 2, sr_score = 0, sr_types = []\<rparr>,
           \<lparr>sr_timestamp = 3, sr_score = 0, sr_types = []\<rparr>,
           \<lparr>sr_timestamp = 4, sr_score = 0, sr_types = []\<rparr>,
           \<lparr>sr_timestamp = 5, sr_score = 0, sr_types = []\<rparr>,
           \<lparr>sr_timestamp = 6, sr_score = 0, sr_types = []\<rparr>,
           \<lparr>sr_timestamp = 7, sr_score = 0, sr_types = []\<rparr>,
           \<lparr>sr_timestamp = 8, sr_score = 0, sr_types = []\<rparr>,
           \<lparr>sr_timestamp = 9, sr_score = 0, sr_types = []\<rparr>,
           \<lparr>sr_timestamp = 10, sr_score = 0, sr_types = []\<rparr>,
           \<lparr>sr_timestamp = 11, sr_score = 0, sr_types = []\<rparr>] \<le> (10::nat)"
  using ex_eleven_turns
    session_history_at_most_ten [of "\<lambda>s. s" example_engine order_seed_5
      "[([], Some ''s1'', 1), ([], Some ''s1'', 2), ([], Some ''s1'', 3), ([], Some ''s1'', 4),
         ([], Some ''s1'', 5), ([], Some ''s1'', 6), ([], Some ''s1'', 7), ([], Some ''s1'', 8),
         ([], Some ''s1'', 9), ([], Some ''s1'', 10), ([], Some ''s1'', 11)]"]
  by blast

text \<open>
  C10. A call with the empty string as session id returns what the call without a session
  id returns, leaves the engine (its session map included) unchanged, and reports a
  session pattern risk of 0.
\<close>

theorem empty_session_id_is_no_session:
  "assess_crisis_level lower engine rank self utterance (Some []) now
     = assess_crisis_level lower engine rank self utterance None now
   \<and> snd (assess_crisis_level lower engine rank self utterance (Some []) now) = self
   \<and> (\<forall>a. fst (assess_crisis_level lower engine rank self utterance (Some []) now) = Inr a
          \<longrightarrow> session_pattern_risk a = 0)"
  using assess_no_session_risk [where lower = lower and engine = engine and self = self and now = now]
  by (simp add: assess_empty_session assess_no_session)

theorem empty_session_id_is_no_session_witness:
  "assess_crisis_level (\<lambda>s. s) example_engine order_seed_5 init [] (Some []) 1
     = (Inr \<lparr>crisis_level = ''low'', crisis_score = 0, detected_types = [],
             requires_escalation = False, requires_immediate_intervention = False,
             session_pattern_risk = 0,
             relevant_resources =
               emergency build_emergency_resources ++ support build_emergency_resources\<rparr>, init)
   \<and> session_history (snd (assess_crisis_level (\<lambda>s. s) example_engine order_seed_5 init [] (Some []) 1))
       = Map.empty"
proof -
  have e: "assess_crisis_level (\<lambda>s. s) example_engine order_seed_5 init [] None 1
     = (Inr \<lparr>crisis_level = ''low'', crisis_score = 0, detected_types = [],
             requires_escalation = False, requires_immediate_intervention = False,
             session_pattern_risk = 0,
             relevant_resources =
               emergency build_emergency_resources ++ support build_emergency_resources\<rparr>, init)"
    using ex_assess [of Map.empty 1] by (simp add: init_as_update [symmetric])
  show ?thesis
    using empty_session_id_is_no_session
      [where lower = "\<lambda>s. s" and engine = example_engine and rank = order_seed_5 and self = init and utterance = "[]" and now = 1] e
    by (simp add: session_history_init)
qed

subsection \<open>Resource resolver: auxiliary facts\<close>

lemma any_of_three:
  "list_ex (\<lambda>t. t \<in> set ts) [''suicide'', ''self_harm'', ''severe_depression'']
     = (''suicide'' \<in> set ts \<or> ''self_harm'' \<in> set ts \<or> ''severe_depression'' \<in> set ts)"
  by simp

lemma police_entry: "emergency build_emergency_resources ''police'' = Some ''999''"
  by (simp add: build_emergency_resources_def)

lemma police_only_in_emergency:
  "mental_health build_emergency_resources ''police'' = None"
  "hospitals build_emergency_resources ''police'' = None"
  "support build_emergency_resources ''police'' = None"
  by (simp_all add: build_emergency_resources_def)

lemma directory_domains:
  "dom (emergency build_emergency_resources)
     = {''general_emergency'', ''police'', ''ambulance'', ''fire''}"
  "dom (hospitals build_emergency_resources)
     = {''sultan_qaboos_hospital'', ''royal_hospital'', ''khoula_hospital'', ''nizwa_hospital''}"
  "dom (mental_health build_emergency_resources)
     = {''mental_health_hotline'', ''psychological_services'', ''crisis_intervention'',
        ''social_services''}"
  "dom (support build_emergency_resources)
     = {''family_guidance'', ''youth_centers'', ''women_centers'', ''community_centers''}"
  by (simp_all add: build_emergency_resources_def dom_map_of_conv_image_fst) 

lemma directory_disjoint:
  "dom (emergency build_emergency_resources) \<inter> dom (hospitals build_emergency_resources) = {}"
  "dom (emergency build_emergency_resources) \<inter> dom (mental_health build_emergency_resources) = {}"
  "dom (emergency build_emergency_resources) \<inter> dom (support build_emergency_resources) = {}"
  "dom (mental_health build_emergency_resources) \<inter> dom (hospitals build_emergency_resources) = {}"
  "dom (mental_health build_emergency_resources) \<inter> dom (support build_emergency_resources) = {}"
  "dom (hospitals build_emergency_resources) \<inter> dom (support build_emergency_resources) = {}"
  by (simp_all add: directory_domains)

lemma resources_closed_form:
  assumes "emergency_resources self = build_emergency_resources"
  shows "get_relevant_resources self ts
           = Inr (emergency build_emergency_resources
                  ++ (if ''suicide'' \<in> set ts \<or> ''self_harm'' \<in> set ts
                         \<or> ''severe_depression'' \<in> set ts
                      then mental_health build_emergency_resources
                           ++ hospitals build_emergency_resources
                      else Map.empty)
                  ++ support build_emergency_resources)"
proof -
  let ?d = build_emergency_resources
  have a: "(emergency ?d ++ mental_health ?d ++ hospitals ?d)(''police'' \<mapsto> ''999'')
             = emergency ?d ++ mental_health ?d ++ hospitals ?d"
    by (rule map_upd_triv) (simp add: map_add_def police_entry police_only_in_emergency)
  have b: "(emergency ?d)(''police'' \<mapsto> ''999'') = emergency ?d"
    by (rule map_upd_triv) (rule police_entry)
  show ?thesis
    using assms by (simp add: get_relevant_resources_def Let_def police_entry a b)
qed

lemma map_le_add_left: "dom f \<inter> dom g = {} \<Longrightarrow> f \<subseteq>\<^sub>m f ++ g"
  by (auto simp: map_le_def map_add_def split: option.splits)

lemma map_le_add_middle: "dom f \<inter> dom h = {} \<Longrightarrow> f \<subseteq>\<^sub>m g ++ f ++ h"
  by (auto simp: map_le_def map_add_def split: option.splits)

lemma resolver_reads_directory_only:
  "emergency_resources self' = emergency_resources self \<Longrightarrow>
   get_relevant_resources self' ts = get_relevant_resources self ts"
  by (simp add: get_relevant_resources_def)

lemma analyze_keeps_directory:
  "emergency_resources (snd (analyze_session_patterns self sid cs now)) = emergency_resources self"
  by (simp add: analyze_session_patterns_def Let_def)

lemma assess_resources:
  assumes "fst (assess_crisis_level lower engine rank self utterance session_id now) = Inr a"
  shows "\<exists>ts. get_relevant_resources self ts = Inr (relevant_resources a)"
proof -
  have k: "get_relevant_resources (snd (analyze_session_patterns self sid cs now)) ts
             = get_relevant_resources self ts" for sid cs ts
    by (rule resolver_reads_directory_only) (rule analyze_keeps_directory)
  show ?thesis
    using assms k
    by (auto simp: assess_crisis_level_def Let_def split: sum.splits option.splits prod.splits if_splits)
       (metis snd_conv)+
qed

lemma resources_contents_concrete:
  assumes "emergency_resources self = build_emergency_resources"
  shows "\<exists>m. get_relevant_resources self ts = Inr m
           \<and> emergency build_emergency_resources \<subseteq>\<^sub>m m
           \<and> support build_emergency_resources \<subseteq>\<^sub>m m
           \<and> ((mental_health build_emergency_resources \<subseteq>\<^sub>m m
                \<and> hospitals build_emergency_resources \<subseteq>\<^sub>m m)
               \<longleftrightarrow> (''suicide'' \<in> set ts \<or> ''self_harm'' \<in> set ts
                     \<or> ''severe_depression'' \<in> set ts))
           \<and> (''violence'' \<in> set ts \<longrightarrow> m ''police'' = Some ''999'')
           \<and> dom m = dom (emergency build_emergency_resources)
                       \<union> dom (support build_emergency_resources)
                       \<union> (if ''suicide'' \<in> set ts \<or> ''self_harm'' \<in> set ts
                              \<or> ''severe_depression'' \<in> set ts
                           then dom (mental_health build_emergency_resources)
                                \<union> dom (hospitals build_emergency_resources)
                           else {})"
proof -
  let ?d = build_emergency_resources
  let ?c = "''suicide'' \<in> set ts \<or> ''self_harm'' \<in> set ts \<or> ''severe_depression'' \<in> set ts"
  let ?opt = "if ?c then mental_health ?d ++ hospitals ?d else Map.empty"
  let ?m = "emergency ?d ++ ?opt ++ support ?d"
  have r: "get_relevant_resources self ts = Inr ?m"
    using assms by (rule resources_closed_form)
  have dom_opt: "dom ?opt = (if ?c then dom (mental_health ?d) \<union> dom (hospitals ?d) else {})"
    by auto
  have dm: "dom ?m = dom (emergency ?d) \<union> dom (support ?d)
                     \<union> (if ?c then dom (mental_health ?d) \<union> dom (hospitals ?d) else {})"
    unfolding dom_map_add dom_opt by auto
  have e: "emergency ?d \<subseteq>\<^sub>m ?m"
  proof -
    have "dom (emergency ?d) \<inter> dom (?opt ++ support ?d) = {}"
      unfolding dom_map_add dom_opt using directory_disjoint by auto
    then have "emergency ?d \<subseteq>\<^sub>m emergency ?d ++ (?opt ++ support ?d)"
      by (rule map_le_add_left)
    then show ?thesis by (simp only: map_add_assoc)
  qed
  have s: "support ?d \<subseteq>\<^sub>m ?m"
    by (rule map_le_map_add)
  have p: "?m ''police'' = Some ''999''"
    using e police_entry by (auto simp: map_le_def dom_def)
  have i: "(mental_health ?d \<subseteq>\<^sub>m ?m \<and> hospitals ?d \<subseteq>\<^sub>m ?m) \<longleftrightarrow> ?c"
  proof (cases ?c)
    case True
    have "mental_health ?d \<subseteq>\<^sub>m (emergency ?d ++ mental_health ?d) ++ (hospitals ?d ++ support ?d)"
    proof -
      have "dom (mental_health ?d) \<inter> dom (hospitals ?d ++ support ?d) = {}"
        unfolding dom_map_add using directory_disjoint by auto
      then have "mental_health ?d \<subseteq>\<^sub>m emergency ?d ++ mental_health ?d ++ (hospitals ?d ++ support ?d)"
        by (rule map_le_add_middle)
      then show ?thesis .
    qed
    moreover have "hospitals ?d \<subseteq>\<^sub>m (emergency ?d ++ mental_health ?d) ++ hospitals ?d ++ support ?d"
      by (rule map_le_add_middle) (rule directory_disjoint)
    ultimately show ?thesis
      using True by (simp add: map_add_assoc)
  next
    case False
    have inh: "''royal_hospital'' \<in> dom (hospitals ?d)"
      by (simp add: directory_domains)
    have out: "''royal_hospital'' \<notin> dom ?m"
      unfolding dm using False by (simp add: directory_domains)
    have "\<not> hospitals ?d \<subseteq>\<^sub>m ?m"
    proof
      assume "hospitals ?d \<subseteq>\<^sub>m ?m"
      then have "dom (hospitals ?d) \<subseteq> dom ?m"
        by (rule map_le_implies_dom_le)
      then have "''royal_hospital'' \<in> dom ?m"
        using inh by (rule subsetD)
      with out show False by (rule notE)
    qed
    then show ?thesis using False by simp
  qed
  show ?thesis
    by (rule exI [of _ ?m]) (intro conjI impI; (rule r e s i p dm))
qed

lemma resolver_general:
  assumes "get_relevant_resources self ts = Inr m"
  shows "dom (emergency (emergency_resources self)) \<subseteq> dom m
         \<and> support (emergency_resources self) \<subseteq>\<^sub>m m"
  using assms
  by (auto simp: get_relevant_resources_def Let_def map_le_def map_add_def
      split: if_splits option.splits)

lemma init_directory: "emergency_resources init = build_emergency_resources"
  by (simp add: init_def)


text \<open>
  C7. With the directory the engine is built with, the resolver returns, for every list
  of detected types, a flat mapping from names to contacts that contains the general
  emergency contacts and the support contacts; it contains the mental-health and hospital
  contacts exactly when suicide, self-harm or severe depression is among the types; with
  violence among the types it has the police contact; and it has no other key. For any
  directory, what the resolver returns keeps every key of the emergency group, and the
  support group, added last, is in it with its own values.
\<close>

theorem relevant_resources_contents:
  assumes "emergency_resources self = build_emergency_resources"
  shows "(\<exists>m. get_relevant_resources self ts = Inr m
           \<and> emergency build_emergency_resources \<subseteq>\<^sub>m m
           \<and> support build_emergency_resources \<subseteq>\<^sub>m m
           \<and> ((mental_health build_emergency_resources \<subseteq>\<^sub>m m
                \<and> hospitals build_emergency_resources \<subseteq>\<^sub>m m)
               \<longleftrightarrow> (''suicide'' \<in> set ts \<or> ''self_harm'' \<in> set ts
                     \<or> ''severe_depression'' \<in> set ts))
           \<and> (''violence'' \<in> set ts \<longrightarrow> m ''police'' = Some ''999'')
           \<and> dom m = dom (emergency build_emergency_resources)
                       \<union> dom (support build_emergency_resources)
                       \<union> (if ''suicide'' \<in> set ts \<or> ''self_harm'' \<in> set ts
                              \<or> ''severe_depression'' \<in> set ts
                           then dom (mental_health build_emergency_resources)
                                \<union> dom (hospitals build_emergency_resources)
                           else {}))
         \<and> (\<forall>m'. get_relevant_resources self' ts' = Inr m' \<longrightarrow>
                dom (emergency (emergency_resources self')) \<subseteq> dom m'
                \<and> support (emergency_resources self') \<subseteq>\<^sub>m m')"
proof (rule conjI)
  show "\<exists>m. get_relevant_resources self ts = Inr m
           \<and> emergency build_emergency_resources \<subseteq>\<^sub>m m
           \<and> support build_emergency_resources \<subseteq>\<^sub>m m
           \<and> ((mental_health build_emergency_resources \<subseteq>\<^sub>m m
                \<and> hospitals build_emergency_resources \<subseteq>\<^sub>m m)
               \<longleftrightarrow> (''suicide'' \<in> set ts \<or> ''self_harm'' \<in> set ts
                     \<or> ''severe_depression'' \<in> set ts))
           \<and> (''violence'' \<in> set ts \<longrightarrow> m ''police'' = Some ''999'')
           \<and> dom m = dom (emergency build_emergency_resources)
                       \<union> dom (support build_emergency_resources)
                       \<union> (if ''suicide'' \<in> set ts \<or> ''self_harm'' \<in> set ts
                              \<or> ''severe_depression'' \<in> set ts
                           then dom (mental_health build_emergency_resources)
                                \<union> dom (hospitals build_emergency_resources)
                           else {})"
    using assms by (rule resources_contents_concrete)
  show "\<forall>m'. get_relevant_resources self' ts' = Inr m' \<longrightarrow>
                dom (emergency (emergency_resources self')) \<subseteq> dom m'
                \<and> support (emergency_resources self') \<subseteq>\<^sub>m m'"
    by (intro allI impI) (rule resolver_general)
qed

lemma closed_form_police:
  "(emergency build_emergency_resources
    ++ (if c then mental_health build_emergency_resources ++ hospitals build_emergency_resources
        else Map.empty)
    ++ support build_emergency_resources) ''police'' = Some ''999''"
  by (simp add: map_add_def police_entry police_only_in_emergency)

lemma resolver_police:
  assumes "emergency_resources self = build_emergency_resources"
    and "get_relevant_resources self ts = Inr m"
  shows "m ''police'' = Some ''999''"
proof -
  have "m = emergency build_emergency_resources
                  ++ (if ''suicide'' \<in> set ts \<or> ''self_harm'' \<in> set ts
                         \<or> ''severe_depression'' \<in> set ts
                      then mental_health build_emergency_resources
                           ++ hospitals build_emergency_resources
                      else Map.empty)
                  ++ support build_emergency_resources"
    using resources_closed_form [OF assms(1), of ts] assms(2) by simp
  then show ?thesis
    by (simp only: closed_form_police)
qed

lemma resolver_ignores_violence:
  assumes "emergency_resources self = build_emergency_resources"
  shows "get_relevant_resources self ts = get_relevant_resources self (removeAll ''violence'' ts)"
  by (simp add: resources_closed_form [OF assms])

lemma map_le_lookup: "f \<subseteq>\<^sub>m m \<Longrightarrow> f k = Some v \<Longrightarrow> m k = Some v"
  by (auto simp: map_le_def dom_def)

theorem relevant_resources_contents_witness:
  "emergency_resources init = build_emergency_resources
   \<and> (\<exists>m. get_relevant_resources init [''suicide'', ''violence''] = Inr m
          \<and> m ''general_emergency'' = Some ''999''
          \<and> m ''police'' = Some ''999''
          \<and> m ''royal_hospital'' = Some ''+968 24599000''
          \<and> dom m = {''sultan_qaboos_hospital'', ''royal_hospital'', ''khoula_hospital'',
                      ''nizwa_hospital'', ''mental_health_hotline'',
                      ''psychological_services'', ''crisis_intervention'', ''social_services'',
                      ''family_guidance'', ''youth_centers'', ''women_centers'',
                      ''community_centers'', ''general_emergency'', ''police'', ''ambulance'',
                      ''fire''})"
proof -
  let ?d = build_emergency_resources
  let ?ts = "[''suicide'', ''violence'']"
  have "\<exists>m. get_relevant_resources init ?ts = Inr m
           \<and> emergency ?d \<subseteq>\<^sub>m m
           \<and> support ?d \<subseteq>\<^sub>m m
           \<and> ((mental_health ?d \<subseteq>\<^sub>m m \<and> hospitals ?d \<subseteq>\<^sub>m m)
               \<longleftrightarrow> (''suicide'' \<in> set ?ts \<or> ''self_harm'' \<in> set ?ts
                     \<or> ''severe_depression'' \<in> set ?ts))
           \<and> (''violence'' \<in> set ?ts \<longrightarrow> m ''police'' = Some ''999'')
           \<and> dom m = dom (emergency ?d) \<union> dom (support ?d)
                       \<union> (if ''suicide'' \<in> set ?ts \<or> ''self_harm'' \<in> set ?ts
                              \<or> ''severe_depression'' \<in> set ?ts
                           then dom (mental_health ?d) \<union> dom (hospitals ?d) else {})"
    using relevant_resources_contents [OF init_directory, of ?ts] by (rule conjunct1)
  then obtain m where r: "get_relevant_resources init ?ts = Inr m"
    and e: "emergency ?d \<subseteq>\<^sub>m m"
    and i: "(mental_health ?d \<subseteq>\<^sub>m m \<and> hospitals ?d \<subseteq>\<^sub>m m)
               \<longleftrightarrow> (''suicide'' \<in> set ?ts \<or> ''self_harm'' \<in> set ?ts
                     \<or> ''severe_depression'' \<in> set ?ts)"
    and p: "''violence'' \<in> set ?ts \<longrightarrow> m ''police'' = Some ''999''"
    and dm: "dom m = dom (emergency ?d) \<union> dom (support ?d)
                       \<union> (if ''suicide'' \<in> set ?ts \<or> ''self_harm'' \<in> set ?ts
                              \<or> ''severe_depression'' \<in> set ?ts
                           then dom (mental_health ?d) \<union> dom (hospitals ?d) else {})"
    by (elim exE conjE)
  have h: "hospitals ?d \<subseteq>\<^sub>m m"
    using i by simp
  have g: "m ''general_emergency'' = Some ''999''"
    by (rule map_le_lookup [OF e]) (simp add: build_emergency_resources_def)
  have po: "m ''police'' = Some ''999''"
    using p by simp
  have ro: "m ''royal_hospital'' = Some ''+968 24599000''"
    by (rule map_le_lookup [OF h]) (simp add: build_emergency_resources_def)
  have d: "dom m = {''sultan_qaboos_hospital'', ''royal_hospital'', ''khoula_hospital'',
                      ''nizwa_hospital'', ''mental_health_hotline'',
                      ''psychological_services'', ''crisis_intervention'', ''social_services'',
                      ''family_guidance'', ''youth_centers'', ''women_centers'',
                      ''community_centers'', ''general_emergency'', ''police'', ''ambulance'',
                      ''fire''}"
    unfolding dm directory_domains by (simp add: Un_assoc)
  show ?thesis
    by (intro conjI exI [of _ m]) (rule init_directory r g po ro d)+
qed

text \<open>
  C9. With the directory the engine is built with, the bundle the resolver returns binds
  \<^verbatim>\<open>police\<close> to \<^verbatim>\<open>999\<close> whatever the detected types, the bundle is the same
  with and without violence among the types, and so every assessment that is returned
  carries the police contact.
\<close>

theorem police_contact_always_present:
  assumes "emergency_resources self = build_emergency_resources"
  shows "(\<exists>m. get_relevant_resources self ts = Inr m \<and> m ''police'' = Some ''999'')
         \<and> get_relevant_resources self ts = get_relevant_resources self (removeAll ''violence'' ts)
         \<and> (\<forall>a. fst (assess_crisis_level lower engine rank self utterance session_id now) = Inr a
                \<longrightarrow> relevant_resources a ''police'' = Some ''999'')"
proof (intro conjI allI impI)
  obtain m where m: "get_relevant_resources self ts = Inr m"
    using resources_closed_form [OF assms, of ts] by (rule that)
  then have "m ''police'' = Some ''999''"
    using assms by (rule resolver_police [rotated])
  with m show "\<exists>m. get_relevant_resources self ts = Inr m \<and> m ''police'' = Some ''999''"
    by (intro exI conjI)
  show "get_relevant_resources self ts = get_relevant_resources self (removeAll ''violence'' ts)"
    using assms by (rule resolver_ignores_violence)
next
  fix a
  assume "fst (assess_crisis_level lower engine rank self utterance session_id now) = Inr a"
  then have "\<exists>ts'. get_relevant_resources self ts' = Inr (relevant_resources a)"
    by (rule assess_resources)
  then obtain ts' where "get_relevant_resources self ts' = Inr (relevant_resources a)" ..
  with assms show "relevant_resources a ''police'' = Some ''999''"
    by (rule resolver_police)
qed

theorem police_contact_always_present_witness:
  "emergency_resources init = build_emergency_resources
   \<and> (\<exists>m. get_relevant_resources init [] = Inr m \<and> m ''police'' = Some ''999'')
   \<and> get_relevant_resources init [''violence''] = get_relevant_resources init []
   \<and> fst (assess_crisis_level (\<lambda>s. s) example_engine order_seed_5 init [] None 1)
       = Inr \<lparr>crisis_level = ''low'', crisis_score = 0, detected_types = [],
               requires_escalation = False, requires_immediate_intervention = False,
               session_pattern_risk = 0,
               relevant_resources =
                 emergency build_emergency_resources ++ support build_emergency_resources\<rparr>
   \<and> (emergency build_emergency_resources ++ support build_emergency_resources) ''police''
       = Some ''999''"
proof -
  let ?a = "\<lparr>crisis_level = ''low'', crisis_score = 0, detected_types = [],
               requires_escalation = False, requires_immediate_intervention = False,
               session_pattern_risk = 0,
               relevant_resources =
                 emergency build_emergency_resources ++ support build_emergency_resources\<rparr>"
  have run: "fst (assess_crisis_level (\<lambda>s. s) example_engine order_seed_5 init [] None 1) = Inr ?a"
    using ex_assess [of Map.empty 1] by (simp add: init_as_update [symmetric])
  note t = police_contact_always_present [OF init_directory,
      where lower = "\<lambda>s. s" and engine = example_engine and rank = order_seed_5
        and utterance = "[]"
        and session_id = None and now = 1]
  have one: "\<exists>m. get_relevant_resources init [] = Inr m \<and> m ''police'' = Some ''999''"
    using t [of "[]"] by (rule conjunct1)
  have two: "get_relevant_resources init [''violence''] = get_relevant_resources init []"
    using t [of "[''violence'']"] by simp
  have "relevant_resources ?a ''police'' = Some ''999''"
    using t [of "[]"] run by blast
  then have three: "(emergency build_emergency_resources ++ support build_emergency_resources)
                      ''police'' = Some ''999''"
    by simp
  show ?thesis
    by (intro conjI) (rule init_directory one two run three)+
qed

subsection \<open>Lexicon matcher\<close>

lemma str_contains_iff: "str_contains k t \<longleftrightarrow> (\<exists>p s. t = p @ k @ s)"
proof (induction t)
  case Nil
  then show ?case by auto
next
  case (Cons c cs)
  show ?case
  proof
    assume "str_contains k (c # cs)"
    then consider "prefix k (c # cs)" | "str_contains k cs" by auto
    then show "\<exists>p s. c # cs = p @ k @ s"
    proof cases
      case 1
      then obtain s where "c # cs = k @ s" by (auto simp: prefix_def)
      then have "c # cs = [] @ k @ s" by simp
      then show ?thesis by blast
    next
      case 2
      with Cons.IH obtain p s where "cs = p @ k @ s" by blast
      then have "c # cs = (c # p) @ k @ s" by simp
      then show ?thesis by blast
    qed
  next
    assume "\<exists>p s. c # cs = p @ k @ s"
    then obtain p s where e: "c # cs = p @ k @ s" by blast
    show "str_contains k (c # cs)"
    proof (cases p)
      case Nil
      with e have "prefix k (c # cs)" by (simp add: prefix_def)
      then show ?thesis by simp
    next
      case (Cons a p')
      with e have "cs = p' @ k @ s" by simp
      with Cons.IH have "str_contains k cs" by blast
      then show ?thesis by simp
    qed
  qed
qed

lemma type_value_inj: "type_value a = type_value b \<longleftrightarrow> a = b"
  by (cases a; cases b; simp)

lemma scan_keywords_eq:
  "scan_keywords lower text ks (score, found)
     = (score + length (matching_keywords lower ks text),
        found @ matching_keywords lower ks text)"
  by (induction ks arbitrary: score found) (simp_all add: matching_keywords_def)

lemma keywords_loop_scores:
  assumes "distinct (map fst table)"
  shows "ch_scores (check_crisis_keywords_loop lower text table results) (type_value ct)
           = (case map_of table ct of
                None \<Rightarrow> ch_scores results (type_value ct)
              | Some ks \<Rightarrow>
                  if 0 < length (matching_keywords lower ks text)
                  then Some (real (length (matching_keywords lower ks text)))
                  else ch_scores results (type_value ct))"
  using assms
proof (induction table arbitrary: results)
  case Nil
  then show ?case by simp
next
  case (Cons entry rest)
  obtain ct' ks where entry: "entry = (ct', ks)" by (cases entry)
  from Cons.prems have d: "distinct (map fst rest)" and n: "ct' \<notin> fst ` set rest"
    by (simp_all add: entry)
  show ?case
  proof (cases "ct' = ct")
    case True
    with n have "map_of rest ct = None"
      by (simp add: map_of_eq_None_iff)
    then show ?thesis
      using Cons.IH [OF d] True by (simp add: entry scan_keywords_eq)
  next
    case False
    then show ?thesis
      using Cons.IH [OF d] by (simp add: entry scan_keywords_eq type_value_inj split: option.splits)
  qed
qed

lemma keywords_loop_types:
  "set (ch_types (check_crisis_keywords_loop lower text table results))
     = set (ch_types results)
       \<union> {type_value ct | ct ks. (ct, ks) \<in> set table
                              \<and> 0 < length (matching_keywords lower ks text)}"
proof (induction table arbitrary: results)
  case Nil
  then show ?case by simp
next
  case (Cons entry rest)
  obtain ct' ks where entry: "entry = (ct', ks)" by (cases entry)
  show ?case
    unfolding entry by (auto simp: Cons.IH scan_keywords_eq)
qed

lemma keyword_score_closed_form:
  assumes "distinct (map fst (crisis_keywords self))"
  shows "ch_scores (check_crisis_keywords lower self text) (type_value ct)
           = (if matching_keywords lower (keywords_of self ct) text = [] then None
              else Some (real (length (matching_keywords lower (keywords_of self ct) text))))"
  using keywords_loop_scores [OF assms, of lower "text" _ ct]
  by (simp add: check_crisis_keywords_def keywords_of_def matching_keywords_def
      split: option.splits)

lemma keyword_type_listed:
  assumes "distinct (map fst (crisis_keywords self))"
  shows "type_value ct \<in> set (ch_types (check_crisis_keywords lower self text))
           \<longleftrightarrow> matching_keywords lower (keywords_of self ct) text \<noteq> []"
proof -
  have "type_value ct \<in> set (ch_types (check_crisis_keywords lower self text))
          \<longleftrightarrow> (\<exists>ks. (ct, ks) \<in> set (crisis_keywords self)
                    \<and> 0 < length (matching_keywords lower ks text))"
    by (auto simp: check_crisis_keywords_def keywords_loop_types type_value_inj)
  also have "\<dots> \<longleftrightarrow> (\<exists>ks. map_of (crisis_keywords self) ct = Some ks
                    \<and> 0 < length (matching_keywords lower ks text))"
    using assms by simp
  also have "\<dots> \<longleftrightarrow> matching_keywords lower (keywords_of self ct) text \<noteq> []"
    by (auto simp: keywords_of_def matching_keywords_def split: option.splits)
  finally show ?thesis .
qed

lemma init_keywords_distinct: "distinct (map fst (crisis_keywords init))"
  by (simp add: init_def build_crisis_keywords_def)

lemma ex_suicide_keywords:
  "matching_keywords (\<lambda>s. s) (keywords_of init SUICIDE) repeated_keyword_text
     = [[CHR 0xD8, CHR 0xA7, CHR 0xD9, CHR 0x86, CHR 0xD8, CHR 0xAA, CHR 0xD8, CHR 0xAD,
         CHR 0xD8, CHR 0xA7, CHR 0xD8, CHR 0xB1]]"
  by (simp add: matching_keywords_def keywords_of_def init_def build_crisis_keywords_def
      repeated_keyword_text_def)

lemma ex_suicide_occurrences:
  "spec_lexicon_score (\<lambda>s. s) (keywords_of init SUICIDE) repeated_keyword_text = 2"
  by (simp add: spec_lexicon_score_def keywords_of_def init_def build_crisis_keywords_def
      repeated_keyword_text_def)

text \<open>
  C4, as amended. For every text and every crisis type, the lexicon channel's raw score
  for the type is the number of the type's keywords that occur in the text as a
  substring after lowercasing (a keyword counts 1 however often it occurs, with no
  per-keyword weight), and a type none of whose keywords occurs is absent from the
  scores and from the types of the result.
\<close>

theorem lexicon_score_counts_matching_keywords:
  assumes "distinct (map fst (crisis_keywords self))"
  shows "ch_scores (check_crisis_keywords lower self utterance) (type_value ct)
           = (if matching_keywords lower (keywords_of self ct) utterance = [] then None
              else Some (real (length (matching_keywords lower (keywords_of self ct) utterance))))
         \<and> (type_value ct \<in> set (ch_types (check_crisis_keywords lower self utterance))
              \<longleftrightarrow> matching_keywords lower (keywords_of self ct) utterance \<noteq> [])
         \<and> (k \<in> set (matching_keywords lower ks utterance)
              \<longleftrightarrow> k \<in> set ks \<and> (\<exists>p s. utterance = p @ lower k @ s))"
proof (intro conjI)
  show "ch_scores (check_crisis_keywords lower self utterance) (type_value ct)
           = (if matching_keywords lower (keywords_of self ct) utterance = [] then None
              else Some (real (length (matching_keywords lower (keywords_of self ct) utterance))))"
    using assms by (rule keyword_score_closed_form)
  show "type_value ct \<in> set (ch_types (check_crisis_keywords lower self utterance))
              \<longleftrightarrow> matching_keywords lower (keywords_of self ct) utterance \<noteq> []"
    using assms by (rule keyword_type_listed)
  show "k \<in> set (matching_keywords lower ks utterance)
              \<longleftrightarrow> k \<in> set ks \<and> (\<exists>p s. utterance = p @ lower k @ s)"
    by (simp add: matching_keywords_def str_contains_iff)
qed

theorem lexicon_score_counts_matching_keywords_witness:
  "distinct (map fst (crisis_keywords init))
   \<and> ch_scores (check_crisis_keywords (\<lambda>s. s) init repeated_keyword_text) ''suicide'' = Some 1
   \<and> ''suicide'' \<in> set (ch_types (check_crisis_keywords (\<lambda>s. s) init repeated_keyword_text))
   \<and> ch_scores (check_crisis_keywords (\<lambda>s. s) init repeated_keyword_text) ''violence'' = None"
proof -
  note t = lexicon_score_counts_matching_keywords [OF init_keywords_distinct,
      where lower = "\<lambda>s. s" and utterance = repeated_keyword_text]
  have v: "matching_keywords (\<lambda>s. s) (keywords_of init VIOLENCE) repeated_keyword_text = []"
    by (simp add: matching_keywords_def keywords_of_def init_def build_crisis_keywords_def
        repeated_keyword_text_def)
  have one: "ch_scores (check_crisis_keywords (\<lambda>s. s) init repeated_keyword_text) ''suicide'' = Some 1"
    using t [of SUICIDE] by (simp add: ex_suicide_keywords)
  have two: "''suicide'' \<in> set (ch_types (check_crisis_keywords (\<lambda>s. s) init repeated_keyword_text))"
    using t [of SUICIDE] by (simp add: ex_suicide_keywords)
  have three: "ch_scores (check_crisis_keywords (\<lambda>s. s) init repeated_keyword_text) ''violence'' = None"
    using t [of VIOLENCE] by (simp add: v)
  show ?thesis
    by (intro conjI) (rule init_keywords_distinct one two three)+
qed

text \<open>
  C4 as stated fails: in the text that repeats one suicide keyword the keyword occurs
  twice, and the channel's score for suicide is 1.
\<close>

theorem lexicon_score_is_not_occurrence_count:
  "ch_scores (check_crisis_keywords (\<lambda>s. s) init repeated_keyword_text) ''suicide'' = Some 1
   \<and> spec_lexicon_score (\<lambda>s. s) (keywords_of init SUICIDE) repeated_keyword_text = 2
   \<and> ch_scores (check_crisis_keywords (\<lambda>s. s) init repeated_keyword_text) (type_value SUICIDE)
       \<noteq> Some (real (spec_lexicon_score (\<lambda>s. s) (keywords_of init SUICIDE) repeated_keyword_text))"
proof -
  have one: "ch_scores (check_crisis_keywords (\<lambda>s. s) init repeated_keyword_text) ''suicide'' = Some 1"
    using keyword_score_closed_form [OF init_keywords_distinct, of "\<lambda>s. s" repeated_keyword_text SUICIDE]
    by (simp add: ex_suicide_keywords)
  then show ?thesis
    by (simp add: ex_suicide_occurrences)
qed

subsection \<open>Pattern matcher\<close>

lemma patterns_loop_rejected:
  "\<exists>entry\<in>set table. engine (fst entry) = None \<Longrightarrow>
   check_crisis_patterns_loop engine utterance table results = Inl ReError"
proof (induction table arbitrary: results)
  case Nil
  then show ?case by simp
next
  case (Cons entry rest)
  obtain pattern crisis_type weight where entry: "entry = (pattern, crisis_type, weight)"
    by (cases entry)
  show ?case
  proof (cases "engine pattern")
    case None
    then show ?thesis by (simp add: entry re_findall_def)
  next
    case (Some scan)
    with Cons.prems have "\<exists>entry\<in>set rest. engine (fst entry) = None"
      by (auto simp: entry)
    then have "check_crisis_patterns_loop engine utterance rest r = Inl ReError" for r
      by (rule Cons.IH)
    then show ?thesis
      using Some by (auto simp: entry re_findall_def Let_def split: option.splits)
  qed
qed

lemma patterns_loop_accepted:
  "\<forall>entry\<in>set table. engine (fst entry) \<noteq> None \<Longrightarrow>
   \<exists>r. check_crisis_patterns_loop engine utterance table results = Inr r"
proof (induction table arbitrary: results)
  case Nil
  then show ?case by simp
next
  case (Cons entry rest)
  obtain pattern crisis_type weight where entry: "entry = (pattern, crisis_type, weight)"
    by (cases entry)
  from Cons.prems obtain scan where scan: "engine pattern = Some scan"
    by (auto simp: entry)
  from Cons.prems have "\<forall>entry\<in>set rest. engine (fst entry) \<noteq> None"
    by simp
  then have "\<exists>r'. check_crisis_patterns_loop engine utterance rest r = Inr r'" for r
    by (rule Cons.IH)
  then show ?case
    using scan by (auto simp: entry re_findall_def Let_def split: option.splits)
qed

lemma check_patterns_outcome:
  "(check_crisis_patterns engine self utterance = Inl ReError
      \<longleftrightarrow> (\<exists>entry\<in>set (crisis_patterns self). engine (fst entry) = None))
   \<and> ((\<exists>r. check_crisis_patterns engine self utterance = Inr r)
      \<longleftrightarrow> (\<forall>entry\<in>set (crisis_patterns self). engine (fst entry) \<noteq> None))"
proof (cases "\<exists>entry\<in>set (crisis_patterns self). engine (fst entry) = None")
  case True
  then have "check_crisis_patterns engine self utterance = Inl ReError"
    unfolding check_crisis_patterns_def by (rule patterns_loop_rejected)
  with True show ?thesis by auto
next
  case False
  then have "\<forall>entry\<in>set (crisis_patterns self). engine (fst entry) \<noteq> None"
    by simp
  then have "\<exists>r. check_crisis_patterns engine self utterance = Inr r"
    unfolding check_crisis_patterns_def by (rule patterns_loop_accepted)
  with False show ?thesis by auto
qed

lemma assess_rejected:
  assumes "check_crisis_patterns engine self (lower utterance) = Inl e"
  shows "assess_crisis_level lower engine rank self utterance session_id now = (Inl e, self)"
  using assms by (simp add: assess_crisis_level_def Let_def)

lemma ex_broken_table:
  "check_crisis_patterns example_engine (init_with [(''('', VIOLENCE, 1)]) [] = Inl ReError"
  by (simp add: check_crisis_patterns_def init_with_def example_engine_def re_findall_def)

lemma ex_table_accepted: "\<forall>entry\<in>set (crisis_patterns init). example_engine (fst entry) \<noteq> None"
  by (simp add: init_def build_crisis_patterns_def example_engine_def)

text \<open>
  C5, as amended. Construction stores the Pattern Table as uncompiled pattern strings and
  cannot fail. Every call of the pattern matcher hands the patterns to the regex engine:
  the call raises the engine's error exactly when some pattern of the table is rejected,
  whatever the text (a broken pattern is never silently skipped), it returns a result
  exactly when every pattern is accepted, and an assessment over a table with a rejected
  pattern raises and leaves the engine unchanged.
\<close>

theorem patterns_are_checked_on_every_call:
  "crisis_patterns (init_with table) = table
   \<and> (check_crisis_patterns engine self utterance = Inl ReError
        \<longleftrightarrow> (\<exists>entry\<in>set (crisis_patterns self). engine (fst entry) = None))
   \<and> ((\<exists>r. check_crisis_patterns engine self utterance = Inr r)
        \<longleftrightarrow> (\<forall>entry\<in>set (crisis_patterns self). engine (fst entry) \<noteq> None))
   \<and> ((\<exists>entry\<in>set (crisis_patterns self). engine (fst entry) = None)
        \<longrightarrow> assess_crisis_level lower engine rank self utterance session_id now = (Inl ReError, self))"
proof (intro conjI impI)
  show "crisis_patterns (init_with table) = table"
    by (simp add: init_with_def)
  show "check_crisis_patterns engine self utterance = Inl ReError
        \<longleftrightarrow> (\<exists>entry\<in>set (crisis_patterns self). engine (fst entry) = None)"
    using check_patterns_outcome [of engine self utterance] by (rule conjunct1)
  show "(\<exists>r. check_crisis_patterns engine self utterance = Inr r)
        \<longleftrightarrow> (\<forall>entry\<in>set (crisis_patterns self). engine (fst entry) \<noteq> None)"
    using check_patterns_outcome [of engine self utterance] by (rule conjunct2)
next
  assume "\<exists>entry\<in>set (crisis_patterns self). engine (fst entry) = None"
  then have "check_crisis_patterns engine self (lower utterance) = Inl ReError"
    using check_patterns_outcome [of engine self "lower utterance"] by simp
  then show "assess_crisis_level lower engine rank self utterance session_id now = (Inl ReError, self)"
    by (rule assess_rejected)
qed

theorem patterns_are_checked_on_every_call_witness:
  "crisis_patterns (init_with [(''('', VIOLENCE, 1)]) = [(''('', VIOLENCE, 1)]
   \<and> example_engine ''('' = None
   \<and> check_crisis_patterns example_engine (init_with [(''('', VIOLENCE, 1)]) [] = Inl ReError
   \<and> assess_crisis_level (\<lambda>s. s) example_engine order_seed_5 (init_with [(''('', VIOLENCE, 1)]) [] None 1
       = (Inl ReError, init_with [(''('', VIOLENCE, 1)])
   \<and> (\<exists>r. check_crisis_patterns example_engine init [] = Inr r)"
proof -
  let ?bad = "init_with [(''('', VIOLENCE, 1)]"
  note t = patterns_are_checked_on_every_call
    [where engine = example_engine and rank = order_seed_5 and utterance = "[]" and lower = "\<lambda>s. s"
       and session_id = None and now = 1]
  have stored: "crisis_patterns ?bad = [(''('', VIOLENCE, 1)]"
    using t [of "[(''('', VIOLENCE, 1)]" init] by (rule conjunct1)
  have rejects: "example_engine ''('' = None"
    by (simp add: example_engine_def)
  have some: "\<exists>entry\<in>set (crisis_patterns ?bad). example_engine (fst entry) = None"
    unfolding stored using rejects by simp
  have one: "check_crisis_patterns example_engine ?bad [] = Inl ReError"
    using t [of "[]" ?bad] some by blast
  have two: "assess_crisis_level (\<lambda>s. s) example_engine order_seed_5 ?bad [] None 1 = (Inl ReError, ?bad)"
    using t [of "[]" ?bad] some by blast
  have three: "\<exists>r. check_crisis_patterns example_engine init [] = Inr r"
    using t [of "[]" init] ex_table_accepted by blast
  show ?thesis
    by (intro conjI) (rule stored rejects one two three)+
qed

text \<open>
  C5 as stated fails: an engine constructed over a table with the unterminated group
  \<^verbatim>\<open>(\<close> exists and holds the broken pattern; the failure comes at the call.
\<close>

theorem broken_pattern_fails_at_call_not_at_construction:
  "example_engine ''('' = None
   \<and> crisis_patterns (init_with [(''('', VIOLENCE, 1)]) = [(''('', VIOLENCE, 1)]
   \<and> check_crisis_patterns example_engine (init_with [(''('', VIOLENCE, 1)]) [] = Inl ReError
   \<and> fst (assess_crisis_level (\<lambda>s. s) example_engine order_seed_5 (init_with [(''('', VIOLENCE, 1)]) [] None 1)
       = Inl ReError"
proof -
  let ?bad = "init_with [(''('', VIOLENCE, 1)]"
  have rejects: "example_engine ''('' = None"
    by (simp add: example_engine_def)
  have stored: "crisis_patterns ?bad = [(''('', VIOLENCE, 1)]"
    by (simp add: init_with_def)
  have "check_crisis_patterns example_engine ?bad ((\<lambda>s. s) []) = Inl ReError"
    using ex_broken_table by simp
  then have "assess_crisis_level (\<lambda>s. s) example_engine order_seed_5 ?bad [] None 1 = (Inl ReError, ?bad)"
    by (rule assess_rejected)
  then have raised: "fst (assess_crisis_level (\<lambda>s. s) example_engine order_seed_5 ?bad [] None 1) = Inl ReError"
    by simp
  show ?thesis
    by (intro conjI) (rule rejects stored ex_broken_table raised)+
qed

subsection \<open>Double-precision arithmetic: auxiliary facts\<close>

lemma floorlog_real_bounds:
  assumes "0 < (n::nat)"
  shows "(2::real) ^ (floorlog 2 n - 1) \<le> real n \<and> real n + 1 \<le> 2 ^ floorlog 2 n"
proof -
  have b: "2 ^ (floorlog 2 n - 1) \<le> n \<and> n < 2 ^ floorlog 2 n"
    using assms by (intro floorlog_bounds) simp_all
  then have "real (2 ^ (floorlog 2 n - 1)) \<le> real n"
    by (simp only: of_nat_le_iff)
  then have lo: "(2::real) ^ (floorlog 2 n - 1) \<le> real n"
    by simp
  from b have "Suc n \<le> 2 ^ floorlog 2 n" by simp
  then have "real (Suc n) \<le> real (2 ^ floorlog 2 n)"
    by (simp only: of_nat_le_iff)
  then have hi: "real n + 1 \<le> 2 ^ floorlog 2 n"
    by simp
  from lo hi show ?thesis ..
qed

lemma floorlog_pos: "0 < n \<Longrightarrow> 0 < floorlog 2 n"
  by (simp add: floorlog_def)

lemma exponent_bounds:
  assumes "0 < x"
  shows "2 powi (exponent_of x) \<le> x \<and> x < 2 powi (exponent_of x + 1)"
proof (cases "1 \<le> x")
  case True
  define n where "n = nat \<lfloor>x\<rfloor>"
  define k where "k = floorlog 2 n"
  have n: "0 < n" unfolding n_def using True by simp
  have rn: "real n \<le> x" "x < real n + 1"
    unfolding n_def using True by linarith+
  have b: "(2::real) ^ (k - 1) \<le> real n" "real n + 1 \<le> 2 ^ k"
    unfolding k_def using floorlog_real_bounds [OF n] by simp_all
  have k: "0 < k" unfolding k_def using n by (rule floorlog_pos)
  have e: "exponent_of x = int (k - 1)" "exponent_of x + 1 = int k"
    using True k by (simp_all add: exponent_of_def n_def k_def)
  have "2 ^ (k - 1) \<le> x" using b(1) rn(1) by (rule order_trans)
  then have lower: "2 powi (exponent_of x) \<le> x"
    unfolding e(1) by (simp only: power_int_of_nat)
  have "x < 2 ^ k" using rn(2) b(2) by (rule less_le_trans)
  then have upper: "x < 2 powi (exponent_of x + 1)"
    unfolding e(2) by (simp only: power_int_of_nat)
  from lower upper show ?thesis ..
next
  case False
  define n where "n = nat (\<lceil>1 / x\<rceil> - 1)"
  define k where "k = floorlog 2 n"
  have y: "1 < 1 / x" using False assms by simp
  then have m: "2 \<le> \<lceil>1 / x\<rceil>" by linarith
  then have n: "0 < n" unfolding n_def by simp
  have rn: "real n < 1 / x" "1 / x \<le> real n + 1"
    unfolding n_def using m by linarith+
  have b: "(2::real) ^ (k - 1) \<le> real n" "real n + 1 \<le> 2 ^ k"
    unfolding k_def using floorlog_real_bounds [OF n] by simp_all
  have k: "0 < k" unfolding k_def using n by (rule floorlog_pos)
  have e: "exponent_of x = - int k" "exponent_of x + 1 = - int (k - 1)"
    using False k by (simp_all add: exponent_of_def n_def k_def)
  have "1 / x \<le> 2 ^ k" using rn(2) b(2) by (rule order_trans)
  then have "1 / 2 ^ k \<le> x"
    using assms by (simp add: field_simps)
  then have lower: "2 powi (exponent_of x) \<le> x"
    unfolding e(1) by (simp add: power_int_minus field_simps)
  have "2 ^ (k - 1) < 1 / x" using b(1) rn(1) by (rule le_less_trans)
  then have "x < 1 / 2 ^ (k - 1)"
    using assms by (simp add: field_simps)
  then have upper: "x < 2 powi (exponent_of x + 1)"
    unfolding e(2) by (simp add: power_int_minus field_simps)
  from lower upper show ?thesis ..
qed

lemma exponent_unique:
  assumes "0 < x" and "2 powi e \<le> x" and "x < 2 powi (e + 1)"
  shows "exponent_of x = e"
proof (rule ccontr)
  assume ne: "exponent_of x \<noteq> e"
  have b: "2 powi (exponent_of x) \<le> x" "x < 2 powi (exponent_of x + 1)"
    using exponent_bounds [OF assms(1)] by simp_all
  show False
  proof (cases "e < exponent_of x")
    case True
    then have "(2::real) powi (e + 1) \<le> 2 powi (exponent_of x)"
      by (intro power_int_increasing) simp_all
    with b(1) assms(3) show False by linarith
  next
    case False
    with ne have "exponent_of x + 1 \<le> e" by simp
    then have "(2::real) powi (exponent_of x + 1) \<le> 2 powi e"
      by (intro power_int_increasing) simp_all
    with b(2) assms(2) show False by linarith
  qed
qed




lemma py_float_eval:
  assumes "0 < x" and "2 powi e \<le> x" and "x < 2 powi (e + 1)"
  shows "py_float x = of_int (round_half_even (x / 2 powi (e - 52))) * 2 powi (e - 52)"
  using assms(1) exponent_unique [OF assms] by (simp add: py_float_def Let_def)

lemma float_literal_03: "py_float (3 / 10) = 5404319552844595 / 18014398509481984"
  by (subst py_float_eval [where e = "-2"]) (simp_all add: round_half_even_def Let_def)

lemma float_9_times_03:
  "float_mul 9 (py_float (3 / 10)) = 6079859496950169 / 2251799813685248"
  unfolding float_mul_def float_literal_03
  by (subst py_float_eval [where e = 1]) (simp_all add: round_half_even_def Let_def)


subsection \<open>Score fusion\<close>


























subsection \<open>The text of three types, evaluated\<close>































subsection \<open>Assessment without a session id\<close>





end
